theory Spec2Isabelle
  imports Main "HOL-Library.Sublist"
begin

section \<open>Python values used by \<open>ci/optimized_targets.py\<close>\<close>

text \<open>
  Strings are \<^typ>\<open>string\<close> (one \<^typ>\<open>char\<close> per character of the Python \<open>str\<close>).
  An exception is a value: its class and its first argument (the message). Functions
  that can raise return \<open>error + 'a\<close>, with \<open>Inl\<close> for the raised exception.
  All classes listed are subclasses of Python's \<open>Exception\<close>.
\<close>

datatype exn_class =
    RuntimeError | TypeError | KeyError | AttributeError | IndexError
  | OSError | JSONDecodeError | OtherException

datatype error = Error exn_class string

fun message :: "error \<Rightarrow> string" where
  "message (Error c m) = m"

fun exn_class_of :: "error \<Rightarrow> exn_class" where
  "exn_class_of (Error c m) = c"

text \<open>\<open>sub in s\<close> on two strings: \<open>sub\<close> occurs in \<open>s\<close> as a contiguous substring.\<close>

fun str_contains :: "string \<Rightarrow> string \<Rightarrow> bool" where
  "str_contains sub [] = (sub = [])"
| "str_contains sub (c # cs) = (prefix sub (c # cs) \<or> str_contains sub cs)"

text \<open>\<open>s.endswith(t)\<close> and \<open>s.startswith(t)\<close>.\<close>

definition endswith :: "string \<Rightarrow> string \<Rightarrow> bool" where
  "endswith s t = suffix t s"

definition startswith :: "string \<Rightarrow> string \<Rightarrow> bool" where
  "startswith s t = prefix t s"

text \<open>\<open>s.split(c)\<close> for a one-character separator: never the empty list.\<close>

fun split_char :: "char \<Rightarrow> string \<Rightarrow> string list" where
  "split_char c [] = [[]]"
| "split_char c (x # xs) =
     (if x = c then [] # split_char c xs
      else (case split_char c xs of
              [] \<Rightarrow> [[x]]
            | y # ys \<Rightarrow> (x # y) # ys))"

text \<open>\<open>sep.join(parts)\<close>.\<close>

fun join :: "string \<Rightarrow> string list \<Rightarrow> string" where
  "join sep [] = []"
| "join sep [p] = p"
| "join sep (p # q # ps) = p @ sep @ join sep (q # ps)"

text \<open>
  \<open>s.strip(chars)\<close> removes leading and trailing characters that satisfy the predicate;
  \<open>s.strip()\<close> uses \<open>isspace\<close> (the whitespace characters below code point 256).
\<close>

definition strip_with :: "(char \<Rightarrow> bool) \<Rightarrow> string \<Rightarrow> string" where
  "strip_with P s = rev (dropWhile P (rev (dropWhile P s)))"

definition isspace :: "char \<Rightarrow> bool" where
  "isspace c = (of_char c \<in> {9, 10, 11, 12, 13, 28, 29, 30, 31, 32, 133, 160 :: nat})"

definition strip :: "string \<Rightarrow> string" where
  "strip s = strip_with isspace s"

section \<open>\<open>OptimizedBuildTarget._generate_zip_options_for_items\<close>\<close>

text \<open>
  The three list arguments have type \<open>list[str] | None\<close>; \<open>not xs\<close> is true for \<open>None\<close>
  and for the empty list.
\<close>

definition falsy :: "string list option \<Rightarrow> bool" where
  "falsy xs = (case xs of None \<Rightarrow> True | Some ys \<Rightarrow> ys = [])"

text \<open>The elements a loop over \<open>xs\<close> visits when \<open>xs\<close> is a list.\<close>

definition opt_list :: "'a list option \<Rightarrow> 'a list" where
  "opt_list xs = (case xs of None \<Rightarrow> [] | Some ys \<Rightarrow> ys)"

text \<open>\<open>for x in xs: segment.append(flag); segment.append(x)\<close>, skipped when \<open>xs\<close> is falsy.\<close>

fun flag_each :: "string \<Rightarrow> string list \<Rightarrow> string list" where
  "flag_each flag [] = []"
| "flag_each flag (x # xs) = flag # x # flag_each flag xs"

definition flag_items :: "string \<Rightarrow> string list option \<Rightarrow> string list" where
  "flag_items flag xs = (case xs of None \<Rightarrow> [] | Some ys \<Rightarrow> flag_each flag ys)"

definition generate_zip_options_for_items ::
  "string \<Rightarrow> string \<Rightarrow> string list option \<Rightarrow> string list option \<Rightarrow> string list option
    \<Rightarrow> error + string list" where
  "generate_zip_options_for_items pfx relative_root list_files files directories =
     (if falsy list_files \<and> falsy files \<and> falsy directories then
        Inl (Error RuntimeError
               (''No items specified to be added to zip! Prefix: '' @ pfx
                 @ '', Relative root: '' @ relative_root))
      else
        Inr ((if pfx \<noteq> [] then [''-P'', pfx] else [])
             @ (if relative_root \<noteq> [] then [''-C'', relative_root] else [])
             @ flag_items ''-l'' list_files
             @ flag_items ''-f'' files
             @ flag_items ''-D'' directories))"

section \<open>Python sets\<close>

text \<open>
  A Python \<open>set\<close> is modelled as the duplicate-free list of its elements, in the order
  in which they were first added; \<open>len\<close> is \<^const>\<open>length\<close> and \<open>in\<close> is membership in
  \<^const>\<open>set\<close>. Python leaves the iteration order of a set unspecified; nothing proved below
  depends on it.
\<close>

type_synonym 'a pyset = "'a list"

definition set_add :: "'a \<Rightarrow> 'a pyset \<Rightarrow> 'a pyset" where
  "set_add x s = (if x \<in> set s then s else s @ [x])"

section \<open>\<open>os.path\<close> and \<open>pathlib\<close> on POSIX\<close>

text \<open>\<open>s.rfind(c)\<close>: the last index of \<open>c\<close> in \<open>s\<close>, or \<open>-1\<close>.\<close>

fun rfind :: "string \<Rightarrow> char \<Rightarrow> int" where
  "rfind [] c = - 1"
| "rfind (x # xs) c =
     (let r = rfind xs c in
      if 0 \<le> r then r + 1 else if x = c then 0 else - 1)"

definition rstrip_char :: "char \<Rightarrow> string \<Rightarrow> string" where
  "rstrip_char c s = rev (dropWhile (\<lambda>x. x = c) (rev s))"

text \<open>
  \<open>os.path.dirname(p)\<close>: \<open>head = p[:p.rfind('/') + 1]\<close>, with trailing slashes removed
  unless \<open>head\<close> consists of slashes only.
\<close>

definition dirname :: "string \<Rightarrow> string" where
  "dirname p =
     (let i = rfind p (CHR ''/'') + 1;
          head = take (nat i) p
      in if head \<noteq> [] \<and> head \<noteq> replicate (length head) (CHR ''/'')
         then rstrip_char (CHR ''/'') head
         else head)"

text \<open>\<open>os.path.join(a, b)\<close> and \<open>os.path.isabs(p)\<close>.\<close>

definition os_path_join :: "string \<Rightarrow> string \<Rightarrow> string" where
  "os_path_join a b =
     (if startswith b ''/'' then b
      else if a = [] \<or> endswith a ''/'' then a @ b
      else a @ ''/'' @ b)"

definition isabs :: "string \<Rightarrow> bool" where
  "isabs p = startswith p ''/''"

text \<open>
  \<open>os.path.normpath(path)\<close>. The loop over the components keeps \<open>new_comps\<close>;
  \<open>initial_slashes\<close> is 0, 1 or 2.
\<close>

fun normpath_comps :: "nat \<Rightarrow> string list \<Rightarrow> string list \<Rightarrow> string list" where
  "normpath_comps initial_slashes [] new_comps = new_comps"
| "normpath_comps initial_slashes (component # comps) new_comps =
     (if component = [] \<or> component = ''.''
      then normpath_comps initial_slashes comps new_comps
      else if component \<noteq> ''..'' \<or> (initial_slashes = 0 \<and> new_comps = [])
              \<or> (new_comps \<noteq> [] \<and> last new_comps = ''..'')
      then normpath_comps initial_slashes comps (new_comps @ [component])
      else if new_comps \<noteq> [] then normpath_comps initial_slashes comps (butlast new_comps)
      else normpath_comps initial_slashes comps new_comps)"

definition normpath :: "string \<Rightarrow> string" where
  "normpath p =
     (if p = [] then ''.''
      else
        let initial_slashes =
              (if startswith p ''/'' then
                 (if startswith p ''//'' \<and> \<not> startswith p ''///'' then 2 else 1)
               else 0 :: nat);
            new_comps = normpath_comps initial_slashes (split_char (CHR ''/'') p) [];
            q = replicate initial_slashes (CHR ''/'') @ join ''/'' new_comps
        in if q = [] then ''.'' else q)"

text \<open>\<open>os.path.abspath(p)\<close>, with the current directory \<open>cwd\<close> that \<open>os.getcwd()\<close> returns.\<close>

definition abspath :: "string \<Rightarrow> string \<Rightarrow> string" where
  "abspath cwd p = normpath (if isabs p then p else os_path_join cwd p)"

text \<open>
  \<open>os.path.relpath(path, start)\<close>. It raises \<open>ValueError\<close> on an empty \<open>path\<close>; its
  callers below pass a string that ends in \<open>.config\<close> and a newline, so the model takes a
  non-empty \<open>path\<close> and has no error branch. The components joined at the end are
  non-empty and free of slashes, so \<open>os.path.join(*rel_list)\<close> is \<open>'/'.join(rel_list)\<close>.
\<close>

definition relpath :: "string \<Rightarrow> string \<Rightarrow> string \<Rightarrow> string" where
  "relpath cwd p start =
     (let start_list = filter (\<lambda>x. x \<noteq> []) (split_char (CHR ''/'') (abspath cwd start));
          path_list = filter (\<lambda>x. x \<noteq> []) (split_char (CHR ''/'') (abspath cwd p));
          i = length (longest_common_prefix start_list path_list);
          rel_list = replicate (length start_list - i) ''..'' @ drop i path_list
      in if rel_list = [] then ''.'' else join ''/'' rel_list)"

text \<open>
  A \<open>pathlib.Path\<close> is modelled by the string that \<open>str\<close> gives for it. \<open>Path s\<close>
  parses \<open>s\<close>: the root is \<open>/\<close>, or \<open>//\<close> for exactly two leading slashes; empty
  components and \<open>.\<close> components are dropped; the empty path prints as \<open>.\<close>.
  \<open>pdiv p k\<close> is \<open>p / k\<close>.
\<close>

definition splitroot :: "string \<Rightarrow> string \<times> string" where
  "splitroot p =
     (if take 1 p \<noteq> ''/'' then ([], p)
      else if take 1 (drop 1 p) \<noteq> ''/'' \<or> take 1 (drop 2 p) = ''/'' then (''/'', drop 1 p)
      else (''//'', drop 2 p))"

definition Path :: "string \<Rightarrow> string" where
  "Path p =
     (let (root, rel) = splitroot p;
          tail = filter (\<lambda>x. x \<noteq> [] \<and> x \<noteq> ''.'') (split_char (CHR ''/'') rel);
          q = root @ join ''/'' tail
      in if q = [] then ''.'' else q)"

definition pdiv :: "string \<Rightarrow> string \<Rightarrow> string" where
  "pdiv p k = Path (os_path_join p k)"

section \<open>\<open>ChangeInfo\<close>\<close>

text \<open>
  The parsed change description: \<open>{changes: [{projectPath, revisions: [{fileInfos:
  [{path}]}]}]}\<close>. A field is \<open>None\<close> when its key is absent (\<open>dict.get\<close> then returns
  \<open>None\<close>, and \<open>contents['changes']\<close> raises \<open>KeyError\<close>).
\<close>

record file_info =
  path :: "string option"

record revision =
  fileInfos :: "file_info list option"

record change =
  projectPath :: "string option"
  revisions :: "revision list option"

record change_info_contents =
  changes :: "change list option"

text \<open>
  \<open>get_changed_paths\<close> and \<open>find_changed_files\<close> run the same three nested loops and
  differ in the string they add for a file: \<open>entry project_path file_path\<close>. Using
  \<open>None\<close> where a string or a list is needed raises \<open>TypeError\<close>.
\<close>

definition not_a_str :: error where
  "not_a_str = Error TypeError ''expected str, not NoneType''"

definition not_iterable :: error where
  "not_iterable = Error TypeError ''NoneType object is not iterable''"

fun add_file_infos ::
  "(string \<Rightarrow> string \<Rightarrow> string) \<Rightarrow> string \<Rightarrow> file_info list \<Rightarrow> string pyset
    \<Rightarrow> error + string pyset" where
  "add_file_infos entry project_path [] acc = Inr acc"
| "add_file_infos entry project_path (fi # rest) acc =
     (case path fi of
        None \<Rightarrow> Inl not_a_str
      | Some file_path \<Rightarrow>
          add_file_infos entry project_path rest (set_add (entry project_path file_path) acc))"

fun add_revisions ::
  "(string \<Rightarrow> string \<Rightarrow> string) \<Rightarrow> string \<Rightarrow> revision list \<Rightarrow> string pyset
    \<Rightarrow> error + string pyset" where
  "add_revisions entry project_path [] acc = Inr acc"
| "add_revisions entry project_path (rv # rest) acc =
     (case fileInfos rv of
        None \<Rightarrow> Inl not_iterable
      | Some fis \<Rightarrow>
          (case add_file_infos entry project_path fis acc of
             Inl e \<Rightarrow> Inl e
           | Inr acc' \<Rightarrow> add_revisions entry project_path rest acc'))"

fun add_changes ::
  "(string \<Rightarrow> string \<Rightarrow> string) \<Rightarrow> change list \<Rightarrow> string pyset \<Rightarrow> error + string pyset" where
  "add_changes entry [] acc = Inr acc"
| "add_changes entry (c # rest) acc =
     (case projectPath c of
        None \<Rightarrow> Inl not_a_str
      | Some pp \<Rightarrow>
          (let project_path = pp @ ''/'' in
           case revisions c of
             None \<Rightarrow> Inl not_iterable
           | Some rvs \<Rightarrow>
               (case add_revisions entry project_path rvs acc of
                  Inl e \<Rightarrow> Inl e
                | Inr acc' \<Rightarrow> add_changes entry rest acc')))"

definition for_each_file_info ::
  "(string \<Rightarrow> string \<Rightarrow> string) \<Rightarrow> change_info_contents \<Rightarrow> error + string pyset" where
  "for_each_file_info entry ci =
     (case changes ci of
        None \<Rightarrow> Inl (Error KeyError ''changes'')
      | Some cs \<Rightarrow> add_changes entry cs [])"

text \<open>\<open>changed_paths.add(project_path + dir_path)\<close> with \<open>dir_path = os.path.dirname(file_path)\<close>.\<close>

definition get_changed_paths :: "change_info_contents \<Rightarrow> error + string pyset" where
  "get_changed_paths ci =
     for_each_file_info (\<lambda>project_path file_path. project_path @ dirname file_path) ci"

text \<open>\<open>changed_files.add(project_path + file_info.get('path'))\<close>.\<close>

definition find_changed_files :: "change_info_contents \<Rightarrow> error + string pyset" where
  "find_changed_files ci =
     for_each_file_info (\<lambda>project_path file_path. project_path @ file_path) ci"

text \<open>
  For stating properties: the number of file infos of a change description (the sum, over
  its changes and their revisions, of the lengths of the \<open>fileInfos\<close> lists), and the set
  of the strings \<open>entry (projectPath + '/') path\<close>, one for every file info under every
  revision under every change.
\<close>

definition num_file_infos :: "change_info_contents \<Rightarrow> nat" where
  "num_file_infos ci =
     (\<Sum>c\<leftarrow>opt_list (changes ci). \<Sum>rv\<leftarrow>opt_list (revisions c).
        length (opt_list (fileInfos rv)))"

definition file_entries :: "(string \<Rightarrow> string \<Rightarrow> string) \<Rightarrow> change_info_contents \<Rightarrow> string set" where
  "file_entries entry ci =
     {entry (pp @ ''/'') fp | pp fp cs c rvs rv fis fi.
        changes ci = Some cs \<and> c \<in> set cs \<and> projectPath c = Some pp
        \<and> revisions c = Some rvs \<and> rv \<in> set rvs
        \<and> fileInfos rv = Some fis \<and> fi \<in> set fis \<and> path fi = Some fp}"

section \<open>The optimizer object and its environment\<close>

text \<open>
  \<open>BuildContext.TestInfo\<close>: the command, the extra options (dictionaries with the keys
  \<open>key\<close> and \<open>values\<close>, either of which may be absent) and the test-mapping flag.
\<close>

record extra_option =
  opt_key :: "string option"
  opt_values :: "string list option"

record test_info =
  command :: string
  extra_options :: "extra_option list"
  is_test_mapping :: bool

text \<open>The \<open>CompletedProcess\<close> that \<open>subprocess.run\<close> returns.\<close>

record process_result =
  returncode :: int
  stdout :: string
  stderr :: string

text \<open>What the code does to its collaborators, in the order in which it does it.\<close>

datatype event =
    Subprocess_run "string list"
  | Open_read string
  | Open_write string
  | Discover "string option list" string
  | Metrics_instance
  | Report_optimized_target string
  | Add_target_artifact string string int "string pyset"
  | Log_error string
  | Log_error_exception string error
  | Log_info "string list"
  | Print_modules "string pyset"

text \<open>
  The state holds the attributes of the optimizer object (\<open>self\<close>) and the environment
  the methods act on. An attribute that has not been assigned yet is \<open>None\<close>; reading it
  raises \<open>AttributeError\<close>. The collaborators are functions of their arguments:
  \<open>subprocess_run\<close> is \<open>subprocess.run\<close> with the arguments and the process environment,
  \<open>json_load\<close> is \<open>json.load\<close> on the text of a file, \<open>discover\<close> is
  \<open>TestDiscoveryAgent(tradefed_args, test_mapping_zip_path).discover_test_mapping_test_modules()\<close>,
  and the three metrics fields are \<open>MetricsAgent.instance()\<close> and its two methods, each
  giving the exception it raises, if any. \<open>filesystem\<close> maps a path to the text of the file,
  and \<open>open_w_error\<close> gives the exception that opening a path for writing raises, if any.
\<close>

record state =
  target :: string
  enabled_build_features :: "string set"
  test_infos :: "test_info list"
  modules_to_build :: "string pyset option"
  general_tests_outputs :: "string list option"
  general_tests_host_outputs :: "string list option"
  general_tests_target_outputs :: "string list option"
  build_outputs :: "string list option"
  environ :: "string \<rightharpoonup> string"
  getcwd :: string
  filesystem :: "string \<rightharpoonup> string"
  open_w_error :: "string \<Rightarrow> error option"
  subprocess_run :: "string list \<Rightarrow> (string \<rightharpoonup> string) \<Rightarrow> error + process_result"
  json_load :: "string \<Rightarrow> error + change_info_contents"
  discover :: "string option list \<Rightarrow> string \<Rightarrow> error + string list \<times> string list"
  metrics_instance :: "error option"
  report_optimized_target :: "string \<Rightarrow> error option"
  add_target_artifact :: "string \<Rightarrow> string \<Rightarrow> int \<Rightarrow> string pyset \<Rightarrow> error option"
  trace :: "event list"

text \<open>
  A method is a function from the state to its result, an exception or a value, and the
  state it leaves behind; the state is kept when an exception is raised, because
  \<open>_report_info_metrics_silently\<close> catches exceptions and goes on.
\<close>

type_synonym 'a action = "state \<Rightarrow> (error + 'a) \<times> state"

definition return :: "'a \<Rightarrow> 'a action" where
  "return x s = (Inr x, s)"

definition raise :: "error \<Rightarrow> 'a action" where
  "raise e s = (Inl e, s)"

definition bind :: "'a action \<Rightarrow> ('a \<Rightarrow> 'b action) \<Rightarrow> 'b action" where
  "bind m f s = (case m s of (Inl e, s') \<Rightarrow> (Inl e, s') | (Inr x, s') \<Rightarrow> f x s')"

definition emit :: "event \<Rightarrow> unit action" where
  "emit ev s = (Inr (), s\<lparr>trace := trace s @ [ev]\<rparr>)"

definition modify :: "(state \<Rightarrow> state) \<Rightarrow> unit action" where
  "modify f s = (Inr (), f s)"

definition lift :: "error + 'a \<Rightarrow> 'a action" where
  "lift r = (case r of Inl e \<Rightarrow> raise e | Inr x \<Rightarrow> return x)"

text \<open>\<open>pathlib.Path(x)\<close> on a value that may be \<open>None\<close>.\<close>

definition Path_of :: "string option \<Rightarrow> string action" where
  "Path_of x = (case x of None \<Rightarrow> raise not_a_str | Some p \<Rightarrow> return (Path p))"

text \<open>Reading an attribute of \<open>self\<close>.\<close>

definition attribute :: "string \<Rightarrow> 'a option \<Rightarrow> 'a action" where
  "attribute name v =
     (case v of
        None \<Rightarrow> raise (Error AttributeError (''object has no attribute '' @ name))
      | Some x \<Rightarrow> return x)"

subsection \<open>Files\<close>

definition newline :: char where
  "newline = CHR 0x0A"

text \<open>\<open>f.readlines()\<close>: the lines of the text, each with its newline.\<close>

fun readlines :: "string \<Rightarrow> string list" where
  "readlines [] = []"
| "readlines (c # cs) =
     (if c = newline then [c] # readlines cs
      else (case readlines cs of
              [] \<Rightarrow> [[c]]
            | l # ls \<Rightarrow> (c # l) # ls))"

text \<open>\<open>with open(p) as f\<close>, reading the whole text, and \<open>f.readlines()\<close>.\<close>

definition read_text :: "string \<Rightarrow> string action" where
  "read_text p =
     bind (emit (Open_read p)) (\<lambda>_ s.
       case filesystem s p of
         None \<Rightarrow> raise (Error OSError (''No such file or directory: '' @ p)) s
       | Some text \<Rightarrow> return text s)"

definition read_lines :: "string \<Rightarrow> string list action" where
  "read_lines p = bind (read_text p) (\<lambda>text. return (readlines text))"

text \<open>\<open>open(p, 'w')\<close> empties the file; \<open>f.write(text)\<close> appends to it.\<close>

definition open_w :: "string \<Rightarrow> unit action" where
  "open_w p =
     bind (emit (Open_write p)) (\<lambda>_ s.
       case open_w_error s p of
         Some e \<Rightarrow> raise e s
       | None \<Rightarrow> return () (s\<lparr>filesystem := (filesystem s)(p \<mapsto> [])\<rparr>))"

definition fwrite :: "string \<Rightarrow> string \<Rightarrow> state \<Rightarrow> state" where
  "fwrite p text s =
     s\<lparr>filesystem := (filesystem s)(p \<mapsto> (case filesystem s p of None \<Rightarrow> text | Some old \<Rightarrow> old @ text))\<rparr>"

fun write_all :: "string \<Rightarrow> string list \<Rightarrow> state \<Rightarrow> state" where
  "write_all p [] s = s"
| "write_all p (output # outputs) s = write_all p outputs (fwrite p output s)"

section \<open>\<open>OptimizedBuildTarget\<close>\<close>

definition SOONG_UI_BASH_PATH :: string where
  "SOONG_UI_BASH_PATH = ''build/soong/soong_ui.bash''"

definition PREBUILT_SOONG_ZIP_PATH :: string where
  "PREBUILT_SOONG_ZIP_PATH = ''prebuilts/build-tools/linux-x86/bin/soong_zip''"

subsection \<open>\<open>_query_soong_vars\<close>\<close>

text \<open>
  The dictionary comprehension over the lines of the stripped output:
  \<open>line.split('=')[0]: line.split('=')[1].strip("'")\<close>. A line without \<open>=\<close> splits into
  one part and \<open>[1]\<close> raises \<open>IndexError\<close>, here \<open>None\<close>. A later line overrides an
  earlier one with the same name.
\<close>

fun parse_dumpvars :: "string list \<Rightarrow> (string \<rightharpoonup> string) \<Rightarrow> (string \<rightharpoonup> string) option" where
  "parse_dumpvars [] vars = Some vars"
| "parse_dumpvars (line # rest) vars =
     (case split_char (CHR ''='') line of
        name # val # _ \<Rightarrow>
          parse_dumpvars rest (vars(name \<mapsto> strip_with (\<lambda>c. c = CHR 0x27) val))
      | _ \<Rightarrow> None)"

text \<open>
  With empty output the code evaluates \<open>'Necessary soong variables ' + soong_vars +
  ' not found.'\<close>, where \<open>soong_vars\<close> is a list: Python raises \<open>TypeError\<close> there, before
  the \<open>RuntimeError\<close> is built. The second argument of the \<open>RuntimeError\<close> for unparsable
  output, the \<open>IndexError\<close>, is not kept.
\<close>

definition dumpvars_args :: "string \<Rightarrow> string list \<Rightarrow> string list" where
  "dumpvars_args src_top soong_vars =
     [pdiv src_top SOONG_UI_BASH_PATH, ''--dumpvars-mode'',
      ''--abs-vars='' @ join '' '' soong_vars]"

definition query_soong_vars :: "string \<Rightarrow> string list \<Rightarrow> (string \<rightharpoonup> string) action" where
  "query_soong_vars src_top soong_vars =
     (let args = dumpvars_args src_top soong_vars
      in bind (emit (Subprocess_run args)) (\<lambda>_.
         bind (\<lambda>s. lift (subprocess_run s args (environ s)) s) (\<lambda>process_result.
           if returncode process_result \<noteq> 0 then
             bind (emit (Log_error ''soong dumpvars command failed! stderr:'')) (\<lambda>_.
             bind (emit (Log_error (stderr process_result))) (\<lambda>_.
               raise (Error RuntimeError ''Soong dumpvars failed! See log for stderr.'')))
           else if stdout process_result = [] then
             raise (Error TypeError ''can only concatenate str (not list) to str'')
           else
             (case parse_dumpvars (split_char newline (strip (stdout process_result))) Map.empty of
                None \<Rightarrow>
                  raise (Error RuntimeError
                           (''Error parsing soong dumpvars output! See output here: ''
                             @ stdout process_result))
              | Some vars \<Rightarrow> return vars))))"

subsection \<open>\<open>_base_zip_command\<close>\<close>

definition base_zip_command :: "string \<Rightarrow> string \<Rightarrow> string \<Rightarrow> string list" where
  "base_zip_command src_top dist_dir name =
     [pdiv src_top PREBUILT_SOONG_ZIP_PATH, ''-d'', ''-o'', pdiv dist_dir name]"

section \<open>\<open>GeneralTestsOptimizer\<close>\<close>

definition REQUIRED_MODULES :: "string pyset" where
  "REQUIRED_MODULES = [''cts-tradefed'', ''vts-tradefed'', ''compatibility-host-util'']"

definition get_enabled_flag :: string where
  "get_enabled_flag = ''general_tests_optimized''"

text \<open>\<open>pathlib.Path(os.environ.get('TOP', os.getcwd()))\<close>.\<close>

definition get_src_top :: "string action" where
  "get_src_top s =
     return (Path (case environ s ''TOP'' of None \<Rightarrow> getcwd s | Some top_dir \<Rightarrow> top_dir)) s"

subsection \<open>\<open>_get_general_tests_outputs\<close>\<close>

definition get_general_tests_outputs :: "string list action" where
  "get_general_tests_outputs =
     bind get_src_top (\<lambda>src_top.
     bind (query_soong_vars src_top [''PRODUCT_OUT'']) (\<lambda>soong_vars.
     bind (Path_of (soong_vars ''PRODUCT_OUT'')) (\<lambda>product_out.
     bind (read_lines (pdiv product_out ''general-tests_files'')) (\<lambda>general_tests_list.
     bind (read_lines (pdiv product_out ''general-tests_host_files'')) (\<lambda>host_lines.
     bind (modify (\<lambda>s. s\<lparr>general_tests_host_outputs := Some host_lines\<rparr>)) (\<lambda>_.
     bind (read_lines (pdiv product_out ''general-tests_target_files'')) (\<lambda>target_lines.
     bind (modify (\<lambda>s. s\<lparr>general_tests_target_outputs := Some target_lines\<rparr>)) (\<lambda>_.
       return general_tests_list))))))))"

subsection \<open>\<open>_build_tf_command\<close>\<close>

text \<open>
  The command is a list of strings, except that \<open>os.environ.get('BUILD_NUMBER')\<close> is
  appended as it is, \<open>None\<close> when the variable is not set.
\<close>

fun extra_option_args :: "string option \<Rightarrow> extra_option list \<Rightarrow> string option list" where
  "extra_option_args build_number [] = []"
| "extra_option_args build_number (extra_option # rest) =
     (case opt_key extra_option of
        None \<Rightarrow> extra_option_args build_number rest
      | Some k \<Rightarrow>
          if k = [] then extra_option_args build_number rest
          else
            let arg_key = ''--'' @ k in
            if arg_key = ''--build-id'' then
              Some arg_key # build_number # extra_option_args build_number rest
            else if \<not> falsy (opt_values extra_option) then
              concat (map (\<lambda>v. [Some arg_key, Some v]) (opt_list (opt_values extra_option)))
                @ extra_option_args build_number rest
            else Some arg_key # extra_option_args build_number rest)"

definition build_tf_command ::
  "(string \<rightharpoonup> string) \<Rightarrow> test_info \<Rightarrow> string pyset \<Rightarrow> string option list" where
  "build_tf_command env ti change_paths =
     Some (command ti)
       # extra_option_args (env ''BUILD_NUMBER'') (extra_options ti)
       @ (if is_test_mapping ti
          then concat (map (\<lambda>change_path. [Some ''--test-mapping-path'', Some change_path])
                         change_paths)
          else [])"

subsection \<open>\<open>_get_test_discovery_modules\<close>\<close>

text \<open>
  \<open>ChangeInfo(change_info_file_path)\<close>: a \<open>JSONDecodeError\<close> is logged and raised again,
  any other exception is raised as it is.
\<close>

definition ChangeInfo_init :: "string option \<Rightarrow> change_info_contents action" where
  "ChangeInfo_init change_info_file_path =
     (case change_info_file_path of
        None \<Rightarrow> raise not_a_str
      | Some p \<Rightarrow>
          bind (read_text p) (\<lambda>text s.
            case json_load s text of
              Inl e \<Rightarrow>
                if exn_class_of e = JSONDecodeError then
                  bind (emit (Log_error (''Failed to load CHANGE_INFO: '' @ p))) (\<lambda>_. raise e) s
                else raise e s
            | Inr contents \<Rightarrow> return contents s))"

text \<open>One round of the loop over \<open>self.test_infos\<close>: the modules that discovery returns.\<close>

definition discover_test_modules :: "string pyset \<Rightarrow> test_info \<Rightarrow> string list action" where
  "discover_test_modules change_paths ti s =
     (let tf_command = build_tf_command (environ s) ti change_paths in
      case environ s ''DIST_DIR'' of
        None \<Rightarrow> raise not_a_str s
      | Some dist_dir \<Rightarrow>
          let zip_path = dist_dir @ ''/test_mappings.zip'' in
          bind (emit (Discover tf_command zip_path)) (\<lambda>_.
          bind (\<lambda>s'. lift (discover s' tf_command zip_path) s') (\<lambda>(modules, dependencies).
            return modules)) s)"

fun discover_all :: "string pyset \<Rightarrow> test_info list \<Rightarrow> string pyset \<Rightarrow> string pyset action" where
  "discover_all change_paths [] test_modules s = (Inr test_modules, s)"
| "discover_all change_paths (ti # rest) test_modules s =
     (case discover_test_modules change_paths ti s of
        (Inl e, s') \<Rightarrow> (Inl e, s')
      | (Inr modules, s') \<Rightarrow>
          discover_all change_paths rest (fold set_add modules test_modules) s')"

definition get_test_discovery_modules :: "string pyset action" where
  "get_test_discovery_modules =
     bind (\<lambda>s. ChangeInfo_init (environ s ''CHANGE_INFO'') s) (\<lambda>change_info.
     bind (lift (get_changed_paths change_info)) (\<lambda>change_paths.
       (\<lambda>s. discover_all change_paths (test_infos s) [] s)))"

subsection \<open>\<open>get_build_targets_impl\<close>\<close>

text \<open>
  The loop over \<open>test_modules\<close>; \<open>module in output\<close> is substring containment. The pair
  is the local \<open>modules_to_build\<close> (here \<open>to_build\<close>) and \<open>self._build_outputs\<close>.
\<close>

fun select_modules ::
  "string list \<Rightarrow> string list \<Rightarrow> string pyset \<times> string list \<Rightarrow> string pyset \<times> string list" where
  "select_modules outputs [] acc = acc"
| "select_modules outputs (module # rest) (to_build, build_outs) =
     (let module_outputs = filter (\<lambda>output. str_contains module output) outputs in
      if module_outputs \<noteq> [] then
        select_modules outputs rest (set_add module to_build, build_outs @ module_outputs)
      else select_modules outputs rest (to_build, build_outs))"

definition get_build_targets_impl :: "string pyset action" where
  "get_build_targets_impl =
     bind get_general_tests_outputs (\<lambda>outputs.
     bind (modify (\<lambda>s. s\<lparr>general_tests_outputs := Some outputs\<rparr>)) (\<lambda>_.
     bind get_test_discovery_modules (\<lambda>test_modules.
     bind (modify (\<lambda>s. s\<lparr>build_outputs := Some []\<rparr>)) (\<lambda>_.
       (case select_modules outputs test_modules (REQUIRED_MODULES, []) of
          (modules, build_outs) \<Rightarrow>
            bind (modify (\<lambda>s. s\<lparr>build_outputs := Some build_outs\<rparr>)) (\<lambda>_.
              return modules))))))"

subsection \<open>\<open>_report_info_metrics_silently\<close> and \<open>get_build_targets\<close>\<close>

definition call :: "error option \<Rightarrow> unit action" where
  "call r = (case r of Some e \<Rightarrow> raise e | None \<Rightarrow> return ())"

text \<open>The body of the \<open>try\<close> block.\<close>

definition report_info_metrics :: "string \<Rightarrow> unit action" where
  "report_info_metrics artifact_name =
     bind (emit Metrics_instance) (\<lambda>_.
     bind (\<lambda>s. call (metrics_instance s) s) (\<lambda>_.
     bind get_build_targets_impl (\<lambda>targets.
     bind (\<lambda>s. emit (Report_optimized_target (target s)) s) (\<lambda>_.
     bind (\<lambda>s. call (report_optimized_target s (target s)) s) (\<lambda>_.
     bind (\<lambda>s. emit (Add_target_artifact (target s) artifact_name 0 targets) s) (\<lambda>_.
       (\<lambda>s. call (add_target_artifact s (target s) artifact_name 0 targets) s)))))))"

text \<open>\<open>except Exception as e: logging.error(...)\<close>.\<close>

definition report_info_metrics_silently :: "string \<Rightarrow> unit action" where
  "report_info_metrics_silently artifact_name s =
     (case report_info_metrics artifact_name s of
        (Inl e, s') \<Rightarrow>
          emit (Log_error_exception ''error while silently reporting metrics: '' e) s'
      | (Inr _, s') \<Rightarrow> (Inr (), s'))"

definition get_build_targets :: "string pyset action" where
  "get_build_targets s =
     (if get_enabled_flag \<in> enabled_build_features s then
        bind get_build_targets_impl (\<lambda>modules.
        bind (modify (\<lambda>s'. s'\<lparr>modules_to_build := Some modules\<rparr>)) (\<lambda>_.
          return modules)) s
      else
        bind (if target s = ''general-tests''
              then report_info_metrics_silently ''general-tests.zip''
              else return ()) (\<lambda>_.
        bind (modify (\<lambda>s'. s'\<lparr>modules_to_build := Some [target s']\<rparr>)) (\<lambda>_ s'.
          return [target s'] s')) s)"

subsection \<open>\<open>_get_zip_test_configs_zips_commands\<close>\<close>

text \<open>
  The loop \<open>for config_file in config_files\<close>: one line in the list of the side
  (\<open>own_list\<close>) and one in the combined list.
\<close>

fun write_config_lists ::
  "string \<Rightarrow> string \<Rightarrow> string \<Rightarrow> string \<Rightarrow> string list \<Rightarrow> state \<Rightarrow> state" where
  "write_config_lists own_list list_file side root [] s = s"
| "write_config_lists own_list list_file side root (config_file # rest) s =
     write_config_lists own_list list_file side root rest
       (fwrite list_file (side @ relpath (getcwd s) config_file root @ [newline])
          (fwrite own_list (config_file @ [newline]) s))"

definition get_zip_test_configs_zips_commands ::
  "string \<Rightarrow> string \<Rightarrow> string \<Rightarrow> string \<Rightarrow> string list \<Rightarrow> string list
    \<Rightarrow> string list list action" where
  "get_zip_test_configs_zips_commands src_top dist_dir host_out product_out
       host_config_files target_config_files =
     (let host_list = pdiv host_out ''host_general-tests_list'';
          target_list = pdiv product_out ''target_general-tests_list'';
          list_file = pdiv host_out ''general-tests_list''
      in
      bind (open_w host_list) (\<lambda>_.
      bind (open_w target_list) (\<lambda>_.
      bind (open_w list_file) (\<lambda>_.
      bind (modify (write_config_lists host_list list_file ''host/'' host_out
                      host_config_files)) (\<lambda>_.
      bind (modify (write_config_lists target_list list_file ''target/'' product_out
                      target_config_files)) (\<lambda>_.
      bind (lift (generate_zip_options_for_items ''host'' host_out
                    (Some [host_list]) None None)) (\<lambda>host_segment.
      bind (lift (generate_zip_options_for_items ''target'' product_out
                    (Some [target_list]) None None)) (\<lambda>target_segment.
      bind (lift (generate_zip_options_for_items [] host_out
                    None (Some [list_file]) None)) (\<lambda>list_segment.
        return
          [base_zip_command src_top dist_dir ''general-tests_configs.zip''
             @ host_segment @ target_segment,
           base_zip_command src_top dist_dir ''general-tests_list.zip''
             @ list_segment])))))))))"

subsection \<open>\<open>get_package_outputs_commands_impl\<close>\<close>

text \<open>
  \<open>[str(src_top) + '/' + file for file in lines if any('/' + module + '/' in file for
  module in self.modules_to_build)]\<close>.
\<close>

definition outputs_of_modules :: "string \<Rightarrow> string pyset \<Rightarrow> string list \<Rightarrow> string list" where
  "outputs_of_modules src_top modules lines =
     map (\<lambda>file. src_top @ ''/'' @ file)
       (filter (\<lambda>file. list_ex (\<lambda>module. str_contains (''/'' @ module @ ''/'') file) modules)
          lines)"

definition config_files_of :: "string list \<Rightarrow> string list" where
  "config_files_of outputs = filter (\<lambda>file. endswith file (''.config'' @ [newline])) outputs"

definition get_package_outputs_commands_impl :: "string list list action" where
  "get_package_outputs_commands_impl =
     bind get_src_top (\<lambda>src_top.
     bind (\<lambda>s. Path_of (environ s ''DIST_DIR'') s) (\<lambda>dist_dir.
     bind (\<lambda>s. Path_of (environ s ''TMPDIR'') s) (\<lambda>tmp_dir.
     bind (\<lambda>s. attribute ''modules_to_build'' (modules_to_build s) s) (\<lambda>modules.
     bind (emit (Print_modules modules)) (\<lambda>_.
     bind (\<lambda>s. attribute ''_general_tests_host_outputs'' (general_tests_host_outputs s) s)
       (\<lambda>host_lines.
     bind (\<lambda>s. attribute ''_general_tests_target_outputs'' (general_tests_target_outputs s) s)
       (\<lambda>target_lines.
       let host_outputs = outputs_of_modules src_top modules host_lines;
           target_outputs = outputs_of_modules src_top modules target_lines;
           host_config_files = config_files_of host_outputs;
           target_config_files = config_files_of target_outputs
       in
     bind (emit (Log_info host_outputs)) (\<lambda>_.
     bind (emit (Log_info target_outputs)) (\<lambda>_.
     bind (open_w (pdiv tmp_dir ''host.list'')) (\<lambda>_.
     bind (modify (write_all (pdiv tmp_dir ''host.list'') host_outputs)) (\<lambda>_.
     bind (open_w (pdiv tmp_dir ''target.list'')) (\<lambda>_.
     bind (modify (write_all (pdiv tmp_dir ''target.list'') target_outputs)) (\<lambda>_.
     bind (query_soong_vars src_top [''PRODUCT_OUT'', ''SOONG_HOST_OUT'', ''HOST_OUT''])
       (\<lambda>soong_vars.
     bind (Path_of (soong_vars ''PRODUCT_OUT'')) (\<lambda>product_out.
     bind (Path_of (soong_vars ''SOONG_HOST_OUT'')) (\<lambda>soong_host_out.
     bind (Path_of (soong_vars ''HOST_OUT'')) (\<lambda>host_out.
     bind (get_zip_test_configs_zips_commands src_top dist_dir host_out product_out
             host_config_files target_config_files) (\<lambda>config_zip_commands.
     bind (if host_outputs \<noteq> []
           then lift (generate_zip_options_for_items ''host'' host_out
                        (Some [pdiv tmp_dir ''host.list'']) None None)
           else return []) (\<lambda>host_segment.
     bind (if target_outputs \<noteq> []
           then lift (generate_zip_options_for_items ''target'' product_out
                        (Some [pdiv tmp_dir ''target.list'']) None None)
           else return []) (\<lambda>target_segment.
       let framework_path = pdiv soong_host_out ''framework'' in
     bind (lift (generate_zip_options_for_items ''host/tools'' framework_path None
                   (Some [pdiv framework_path ''cts-tradefed.jar'',
                          pdiv framework_path ''compatibility-host-util.jar'',
                          pdiv framework_path ''vts-tradefed.jar''])
                   None)) (\<lambda>tools_segment.
       return
         (config_zip_commands
            @ [base_zip_command src_top dist_dir ''general-tests.zip''
                 @ host_segment @ target_segment @ tools_segment
                 @ [''-sha256'']]))))))))))))))))))))))"

definition get_package_outputs_commands :: "string list list action" where
  "get_package_outputs_commands s =
     (if get_enabled_flag \<in> enabled_build_features s
      then get_package_outputs_commands_impl s
      else return [] s)"

section \<open>\<open>NullOptimizer\<close>\<close>

text \<open>
  The object has the attribute \<open>target\<close> only; its two methods call nothing and leave
  the state as it is.
\<close>

definition NullOptimizer_get_build_targets :: "string \<Rightarrow> string pyset action" where
  "NullOptimizer_get_build_targets null_target = return [null_target]"

definition NullOptimizer_get_package_outputs_commands :: "string \<Rightarrow> string list list action" where
  "NullOptimizer_get_package_outputs_commands null_target = return []"

section \<open>Example inputs\<close>

text \<open>
  A change description in which two revisions touch the same file, and one shaped like
  that of the unit tests, with a file at the top of the project.
\<close>

definition two_revisions_of_one_file :: change_info_contents where
  "two_revisions_of_one_file =
     \<lparr>changes = Some [\<lparr>projectPath = Some ''build/ci'',
                        revisions = Some [\<lparr>fileInfos = Some [\<lparr>path = Some ''README.md''\<rparr>]\<rparr>,
                                          \<lparr>fileInfos = Some [\<lparr>path = Some ''README.md''\<rparr>]\<rparr>]\<rparr>]\<rparr>"

definition change_info_of_test :: change_info_contents where
  "change_info_of_test =
     \<lparr>changes = Some [\<lparr>projectPath = Some ''build/ci'',
        revisions = Some [
          \<lparr>fileInfos = Some [\<lparr>path = Some ''src/main/MyClass.java''\<rparr>,
                             \<lparr>path = Some ''Android.bp''\<rparr>]\<rparr>,
          \<lparr>fileInfos = Some [\<lparr>path = Some ''src/main/AnotherClass.java''\<rparr>]\<rparr>]\<rparr>]\<rparr>"

text \<open>
  The environment of the unit tests, made smaller: three variables from the Soong query,
  a catalog of three lines, one test info and a discovery that returns the module \<open>m1\<close>.
\<close>

definition quote :: string where
  "quote = [CHR 0x27]"

definition example_state :: state where
  "example_state = \<lparr>
     target = ''general-tests'',
     enabled_build_features = {''optimized_build'', ''general_tests_optimized''},
     test_infos = [\<lparr>command = ''/tf/command'',
                    extra_options = [\<lparr>opt_key = Some ''test-mapping-test-group'',
                                      opt_values = Some [''test-mapping-group'']\<rparr>],
                    is_test_mapping = True\<rparr>],
     modules_to_build = None,
     general_tests_outputs = None,
     general_tests_host_outputs = None,
     general_tests_target_outputs = None,
     build_outputs = None,
     environ = [''TOP'' \<mapsto> ''/top'', ''DIST_DIR'' \<mapsto> ''/dist'', ''TMPDIR'' \<mapsto> ''/tmp/'',
                ''CHANGE_INFO'' \<mapsto> ''/top/change_info''],
     getcwd = ''/top'',
     filesystem = [
        ''/top/change_info'' \<mapsto> ''{}'',
        ''/out/general-tests_files'' \<mapsto>
           ''a/m1/x'' @ [newline] @ ''a/m1/x.config'' @ [newline] @ ''a/m2/y'' @ [newline],
        ''/out/general-tests_host_files'' \<mapsto>
           ''a/m1/x'' @ [newline] @ ''a/m1/x.config'' @ [newline],
        ''/out/general-tests_target_files'' \<mapsto> ''a/m2/y'' @ [newline]],
     open_w_error = (\<lambda>_. None),
     subprocess_run = (\<lambda>_ _. Inr \<lparr>returncode = 0,
        stdout = ''PRODUCT_OUT='' @ quote @ ''/out'' @ quote @ [newline]
                 @ ''SOONG_HOST_OUT='' @ quote @ ''/soong'' @ quote @ [newline]
                 @ ''HOST_OUT='' @ quote @ ''/host'' @ quote @ [newline],
        stderr = []\<rparr>),
     json_load = (\<lambda>_. Inr change_info_of_test),
     discover = (\<lambda>_ _. Inr ([''m1''], [''dependency_1''])),
     metrics_instance = None,
     report_optimized_target = (\<lambda>_. None),
     add_target_artifact = (\<lambda>_ _ _ _. None),
     trace = []\<rparr>"

text \<open>The same environment with a given result of the Soong query.\<close>

definition with_soong_result :: "int \<Rightarrow> string \<Rightarrow> state" where
  "with_soong_result code out =
     example_state\<lparr>subprocess_run :=
       (\<lambda>_ _. Inr \<lparr>returncode = code, stdout = out, stderr = ''soong_ui failed''\<rparr>)\<rparr>"

text \<open>
  An output of the Soong query that begins with an empty line.
\<close>

definition output_after_empty_line :: string where
  "output_after_empty_line = [newline] @ ''PRODUCT_OUT='' @ quote @ ''/out'' @ quote @ [newline]"

section \<open>What every method leaves as it is\<close>

text \<open>
  No method assigns \<open>self.target\<close>, and the list of events only grows: an action
  \<open>advances\<close> when, from every state, it leaves the target as it is and extends the
  trace.
\<close>

definition advances :: "'a action \<Rightarrow> bool" where
  "advances m = (\<forall>s. target (snd (m s)) = target s \<and> prefix (trace s) (trace (snd (m s))))"

text \<open>
  No method assigns the metrics agent: an action \<open>keeps_agent\<close> when, from every state,
  it leaves what \<open>report_optimized_target\<close> and \<open>add_target_artifact\<close> do as it was.
\<close>

definition keeps_agent :: "'a action \<Rightarrow> bool" where
  "keeps_agent m =
     (\<forall>s. report_optimized_target (snd (m s)) = report_optimized_target s
          \<and> add_target_artifact (snd (m s)) = add_target_artifact s)"

text \<open>
  The example environment without the feature \<open>general_tests_optimized\<close>, and the same
  with a metrics agent whose \<open>instance()\<close> raises.
\<close>

definition pass_through_state :: state where
  "pass_through_state = example_state\<lparr>enabled_build_features := {''optimized_build''}\<rparr>"

definition metrics_failing_state :: state where
  "metrics_failing_state =
     pass_through_state\<lparr>metrics_instance := Some (Error OtherException ''no metrics agent'')\<rparr>"

text \<open>
  The example environment without the feature, with a metrics agent whose
  \<open>report_optimized_target\<close> raises, and with one whose \<open>add_target_artifact\<close> raises.
\<close>

definition report_failing_state :: state where
  "report_failing_state =
     pass_through_state\<lparr>report_optimized_target :=
       (\<lambda>_. Some (Error OtherException ''target not reported''))\<rparr>"

definition artifact_failing_state :: state where
  "artifact_failing_state =
     pass_through_state\<lparr>add_target_artifact :=
       (\<lambda>_ _ _ _. Some (Error OtherException ''artifact not added''))\<rparr>"

text \<open>
  The collaborator calls of \<open>get_build_targets_impl\<close> in the example environment: the
  Soong query, the three catalog files, the change description and one discovery.
\<close>

definition selection_events :: "event list" where
  "selection_events =
     [Subprocess_run [''/top/build/soong/soong_ui.bash'', ''--dumpvars-mode'',
                      ''--abs-vars=PRODUCT_OUT''],
      Open_read ''/out/general-tests_files'',
      Open_read ''/out/general-tests_host_files'',
      Open_read ''/out/general-tests_target_files'',
      Open_read ''/top/change_info'',
      Discover [Some ''/tf/command'', Some ''--test-mapping-test-group'',
                Some ''test-mapping-group'', Some ''--test-mapping-path'',
                Some ''build/ci/src/main'', Some ''--test-mapping-path'',
                Some ''build/ci/'']
               ''/dist/test_mappings.zip'']"

text \<open>The example environment after \<open>get_build_targets\<close> has run in it.\<close>

definition selected_state :: state where
  "selected_state = snd (get_build_targets example_state)"

section \<open>Properties\<close>

subsection \<open>Change descriptions\<close>

lemma set_add_set [simp]: "set (set_add x s) = insert x (set s)"
  by (auto simp: set_add_def)

lemma set_add_distinct [simp]: "distinct (set_add x s) = distinct s"
  by (auto simp: set_add_def)

lemma set_add_length: "length (set_add x s) \<le> Suc (length s)"
  by (simp add: set_add_def)

lemma add_file_infos_set:
  "add_file_infos entry p fis acc = Inr r \<Longrightarrow>
     set r = set acc \<union> {entry p fp | fp fi. fi \<in> set fis \<and> path fi = Some fp}"
proof (induction fis arbitrary: acc)
  case Nil
  then show ?case by simp
next
  case (Cons fi fis)
  then obtain fp where fp: "path fi = Some fp" by (cases "path fi") auto
  with Cons.prems have "add_file_infos entry p fis (set_add (entry p fp) acc) = Inr r" by simp
  from Cons.IH [OF this] fp show ?case by auto
qed

lemma add_file_infos_length:
  "add_file_infos entry p fis acc = Inr r \<Longrightarrow> length r \<le> length acc + length fis"
proof (induction fis arbitrary: acc)
  case Nil
  then show ?case by simp
next
  case (Cons fi fis)
  then obtain fp where fp: "path fi = Some fp" by (cases "path fi") auto
  with Cons.prems have "add_file_infos entry p fis (set_add (entry p fp) acc) = Inr r" by simp
  from Cons.IH [OF this] set_add_length [of "entry p fp" acc] show ?case by simp
qed

lemma add_file_infos_distinct:
  "add_file_infos entry p fis acc = Inr r \<Longrightarrow> distinct acc \<Longrightarrow> distinct r"
  by (induction fis arbitrary: acc) (auto split: option.splits)

lemma add_revisions_set:
  "add_revisions entry p rvs acc = Inr r \<Longrightarrow>
     set r = set acc \<union> {entry p fp | fp rv fis fi.
        rv \<in> set rvs \<and> fileInfos rv = Some fis \<and> fi \<in> set fis \<and> path fi = Some fp}"
proof (induction rvs arbitrary: acc)
  case Nil
  then show ?case by simp
next
  case (Cons rv rvs)
  then obtain fis where fis: "fileInfos rv = Some fis" by (cases "fileInfos rv") auto
  with Cons.prems obtain acc' where
    a: "add_file_infos entry p fis acc = Inr acc'" and b: "add_revisions entry p rvs acc' = Inr r"
    by (cases "add_file_infos entry p fis acc") auto
  from add_file_infos_set [OF a] Cons.IH [OF b] fis show ?case
    by (auto; blast)
qed

lemma add_revisions_length:
  "add_revisions entry p rvs acc = Inr r \<Longrightarrow>
     length r \<le> length acc + (\<Sum>rv\<leftarrow>rvs. length (opt_list (fileInfos rv)))"
proof (induction rvs arbitrary: acc)
  case Nil
  then show ?case by simp
next
  case (Cons rv rvs)
  then obtain fis where fis: "fileInfos rv = Some fis" by (cases "fileInfos rv") auto
  with Cons.prems obtain acc' where
    a: "add_file_infos entry p fis acc = Inr acc'" and b: "add_revisions entry p rvs acc' = Inr r"
    by (cases "add_file_infos entry p fis acc") auto
  from add_file_infos_length [OF a] Cons.IH [OF b] fis show ?case
    by (simp add: opt_list_def)
qed

lemma add_revisions_distinct:
  "add_revisions entry p rvs acc = Inr r \<Longrightarrow> distinct acc \<Longrightarrow> distinct r"
  by (induction rvs arbitrary: acc)
     (auto split: option.splits sum.splits dest: add_file_infos_distinct)

lemma add_changes_set:
  "add_changes entry cs acc = Inr r \<Longrightarrow>
     set r = set acc \<union> {entry (pp @ ''/'') fp | pp fp c rvs rv fis fi.
        c \<in> set cs \<and> projectPath c = Some pp \<and> revisions c = Some rvs \<and> rv \<in> set rvs
        \<and> fileInfos rv = Some fis \<and> fi \<in> set fis \<and> path fi = Some fp}"
proof (induction cs arbitrary: acc)
  case Nil
  then show ?case by simp
next
  case (Cons c cs)
  then obtain pp where pp: "projectPath c = Some pp" by (cases "projectPath c") auto
  with Cons.prems obtain rvs where rvs: "revisions c = Some rvs"
    by (cases "revisions c") auto
  with pp Cons.prems obtain acc' where
    a: "add_revisions entry (pp @ ''/'') rvs acc = Inr acc'" and b: "add_changes entry cs acc' = Inr r"
    by (cases "add_revisions entry (pp @ ''/'') rvs acc") auto
  from add_revisions_set [OF a] Cons.IH [OF b] pp rvs show ?case
    by (auto; blast)
qed

lemma add_changes_length:
  "add_changes entry cs acc = Inr r \<Longrightarrow>
     length r \<le> length acc
       + (\<Sum>c\<leftarrow>cs. \<Sum>rv\<leftarrow>opt_list (revisions c). length (opt_list (fileInfos rv)))"
proof (induction cs arbitrary: acc)
  case Nil
  then show ?case by simp
next
  case (Cons c cs)
  then obtain pp where pp: "projectPath c = Some pp" by (cases "projectPath c") auto
  with Cons.prems obtain rvs where rvs: "revisions c = Some rvs"
    by (cases "revisions c") auto
  with pp Cons.prems obtain acc' where
    a: "add_revisions entry (pp @ ''/'') rvs acc = Inr acc'" and b: "add_changes entry cs acc' = Inr r"
    by (cases "add_revisions entry (pp @ ''/'') rvs acc") auto
  from add_revisions_length [OF a] Cons.IH [OF b] rvs show ?case
    by (simp add: opt_list_def)
qed

lemma add_changes_distinct:
  "add_changes entry cs acc = Inr r \<Longrightarrow> distinct acc \<Longrightarrow> distinct r"
  by (induction cs arbitrary: acc)
     (auto split: option.splits sum.splits dest: add_revisions_distinct)

lemma for_each_file_info_set:
  assumes "for_each_file_info entry ci = Inr r"
  shows "set r = file_entries entry ci"
proof -
  from assms obtain cs where cs: "changes ci = Some cs" and r: "add_changes entry cs [] = Inr r"
    by (auto simp: for_each_file_info_def split: option.splits)
  from add_changes_set [OF r] cs show ?thesis
    by (simp add: file_entries_def)
qed

lemma for_each_file_info_distinct:
  "for_each_file_info entry ci = Inr r \<Longrightarrow> distinct r"
  by (auto simp: for_each_file_info_def split: option.splits dest: add_changes_distinct)

lemma for_each_file_info_length:
  "for_each_file_info entry ci = Inr r \<Longrightarrow> length r \<le> num_file_infos ci"
  by (auto simp: for_each_file_info_def num_file_infos_def opt_list_def split: option.splits
           dest: add_changes_length)

lemma rfind_no_char: "c \<notin> set s \<Longrightarrow> rfind s c = - 1"
  by (induction s) (auto simp: Let_def)

lemma dirname_no_slash: "CHR ''/'' \<notin> set fp \<Longrightarrow> dirname fp = []"
  by (simp add: dirname_def rfind_no_char)

subsection \<open>The zip-segment builder\<close>

lemma flag_items_empty_iff: "flag_items flag xs = [] \<longleftrightarrow> falsy xs"
  by (cases xs; cases "the xs") (simp_all add: flag_items_def falsy_def)

text \<open>
  Claim C4. The zip-segment builder raises a \<open>RuntimeError\<close> exactly when the list
  files, the files and the directories are all empty or absent; in every other case it
  raises nothing and returns a segment, which then holds at least one flag and its item.
\<close>

theorem C4_zip_segment_error_iff_no_items:
  "(falsy list_files \<and> falsy files \<and> falsy directories \<longrightarrow>
      (\<exists>msg. generate_zip_options_for_items pfx relative_root list_files files directories
               = Inl (Error RuntimeError msg)))
   \<and> (\<not> (falsy list_files \<and> falsy files \<and> falsy directories) \<longrightarrow>
      (\<exists>seg. generate_zip_options_for_items pfx relative_root list_files files directories
               = Inr seg \<and> seg \<noteq> []))"
  by (auto simp: generate_zip_options_for_items_def flag_items_empty_iff)

theorem C4_witness:
  "falsy None \<and> falsy (Some []) \<and> \<not> falsy (Some [''a.list''])
   \<and> (\<exists>msg. generate_zip_options_for_items ''host'' ''/out'' None (Some []) None
              = Inl (Error RuntimeError msg))
   \<and> (\<exists>seg. generate_zip_options_for_items ''host'' ''/out'' (Some [''a.list'']) None None
              = Inr seg \<and> seg \<noteq> [])"
  using C4_zip_segment_error_iff_no_items [of None "Some []" None "''host''" "''/out''"]
        C4_zip_segment_error_iff_no_items
          [of "Some [''a.list'']" None None "''host''" "''/out''"]
  by (simp add: falsy_def)

lemmas change_info_eval =
  find_changed_files_def get_changed_paths_def for_each_file_info_def set_add_def
  num_file_infos_def opt_list_def dirname_def rstrip_char_def Let_def

text \<open>
  The statement of claim C5 fails for the changed paths: two revisions of one file give two
  file infos and one changed path.
\<close>

theorem C5_counterexample:
  "find_changed_files two_revisions_of_one_file = Inr [''build/ci/README.md'']
   \<and> num_file_infos two_revisions_of_one_file = 2"
  by (simp add: two_revisions_of_one_file_def change_info_eval)

text \<open>
  Claim C5, as amended. When \<open>find_changed_files\<close> returns, the number of changed paths is
  the number of distinct full paths \<open>projectPath + '/' + path\<close>, which is at most the number
  of file infos; when \<open>get_changed_paths\<close> returns, the number of changed directories is at
  most the number of file infos.
\<close>

theorem C5_changed_entries_at_most_file_infos:
  "(find_changed_files ci = Inr changed_files \<longrightarrow>
      length changed_files = card (file_entries (\<lambda>project_path file_path. project_path @ file_path) ci)
      \<and> length changed_files \<le> num_file_infos ci)
   \<and> (get_changed_paths ci = Inr changed_dirs \<longrightarrow>
      length changed_dirs \<le> num_file_infos ci)"
proof (intro conjI impI)
  assume a: "find_changed_files ci = Inr changed_files"
  then have "distinct changed_files"
    unfolding find_changed_files_def by (rule for_each_file_info_distinct)
  moreover from a have "set changed_files = file_entries (\<lambda>project_path file_path. project_path @ file_path) ci"
    unfolding find_changed_files_def by (rule for_each_file_info_set)
  ultimately show "length changed_files = card (file_entries (\<lambda>project_path file_path. project_path @ file_path) ci)"
    by (metis distinct_card)
  from a show "length changed_files \<le> num_file_infos ci"
    unfolding find_changed_files_def by (rule for_each_file_info_length)
next
  assume "get_changed_paths ci = Inr changed_dirs"
  then show "length changed_dirs \<le> num_file_infos ci"
    unfolding get_changed_paths_def by (rule for_each_file_info_length)
qed

theorem C5_witness:
  "find_changed_files change_info_of_test
     = Inr [''build/ci/src/main/MyClass.java'', ''build/ci/Android.bp'',
            ''build/ci/src/main/AnotherClass.java'']
   \<and> get_changed_paths change_info_of_test = Inr [''build/ci/src/main'', ''build/ci/'']
   \<and> card (file_entries (\<lambda>project_path file_path. project_path @ file_path) change_info_of_test) = 3
   \<and> 3 \<le> num_file_infos change_info_of_test
   \<and> 2 \<le> num_file_infos change_info_of_test"
proof -
  have f: "find_changed_files change_info_of_test
     = Inr [''build/ci/src/main/MyClass.java'', ''build/ci/Android.bp'',
            ''build/ci/src/main/AnotherClass.java'']"
    by (simp add: change_info_of_test_def change_info_eval)
  have g: "get_changed_paths change_info_of_test = Inr [''build/ci/src/main'', ''build/ci/'']"
    by (simp add: change_info_of_test_def change_info_eval)
  from C5_changed_entries_at_most_file_infos
         [of change_info_of_test
             "[''build/ci/src/main/MyClass.java'', ''build/ci/Android.bp'',
               ''build/ci/src/main/AnotherClass.java'']"
             "[''build/ci/src/main'', ''build/ci/'']"] f g
  show ?thesis by simp
qed

text \<open>
  Claim C6. When \<open>get_changed_paths\<close> returns, the changed directories are exactly the
  strings \<open>projectPath + '/' + dirname(path)\<close>, one for every file info under every revision
  under every change; in particular a file info whose path has no \<open>/\<close> contributes
  \<open>projectPath + '/'\<close>, with the trailing separator.
\<close>

theorem C6_changed_dirs_are_project_path_slash_dirname:
  assumes "get_changed_paths ci = Inr changed_dirs"
  shows "set changed_dirs
           = file_entries (\<lambda>project_path file_path. project_path @ dirname file_path) ci
         \<and> (\<forall>cs c pp rvs rv fis fi fp.
               changes ci = Some cs \<and> c \<in> set cs \<and> projectPath c = Some pp
               \<and> revisions c = Some rvs \<and> rv \<in> set rvs
               \<and> fileInfos rv = Some fis \<and> fi \<in> set fis \<and> path fi = Some fp
               \<and> CHR ''/'' \<notin> set fp
               \<longrightarrow> pp @ ''/'' \<in> set changed_dirs)"
proof -
  from assms have s: "set changed_dirs
           = file_entries (\<lambda>project_path file_path. project_path @ dirname file_path) ci"
    unfolding get_changed_paths_def by (rule for_each_file_info_set)
  show ?thesis
  proof (intro conjI allI impI)
    show "set changed_dirs
           = file_entries (\<lambda>project_path file_path. project_path @ dirname file_path) ci"
      by (rule s)
  next
    fix cs c pp rvs rv fis fi fp
    assume h: "changes ci = Some cs \<and> c \<in> set cs \<and> projectPath c = Some pp
               \<and> revisions c = Some rvs \<and> rv \<in> set rvs
               \<and> fileInfos rv = Some fis \<and> fi \<in> set fis \<and> path fi = Some fp
               \<and> CHR ''/'' \<notin> set fp"
    then have "dirname fp = []" by (simp add: dirname_no_slash)
    then have "pp @ ''/'' = (pp @ ''/'') @ dirname fp" by simp
    with h have "pp @ ''/'' \<in> file_entries (\<lambda>project_path file_path. project_path @ dirname file_path) ci"
      unfolding file_entries_def by blast
    with s show "pp @ ''/'' \<in> set changed_dirs" by simp
  qed
qed

theorem C6_witness:
  "get_changed_paths change_info_of_test = Inr [''build/ci/src/main'', ''build/ci/'']
   \<and> {''build/ci/src/main'', ''build/ci/''}
       = file_entries (\<lambda>project_path file_path. project_path @ dirname file_path)
           change_info_of_test"
proof -
  have g: "get_changed_paths change_info_of_test = Inr [''build/ci/src/main'', ''build/ci/'']"
    by (simp add: change_info_of_test_def change_info_eval)
  from C6_changed_dirs_are_project_path_slash_dirname [OF g] g
  show ?thesis by simp
qed

subsection \<open>Actions\<close>

lemma bind_InrE:
  assumes "bind m f s = (Inr y, s'')"
  obtains x s' where "m s = (Inr x, s')" and "f x s' = (Inr y, s'')"
  using assms by (auto simp: bind_def split: prod.splits sum.splits)

lemma bind_Inl_cases:
  assumes "bind m f s = (Inl e, s'')"
  shows "m s = (Inl e, s'') \<or> (\<exists>x s'. m s = (Inr x, s') \<and> f x s' = (Inl e, s''))"
  using assms by (auto simp: bind_def split: prod.splits sum.splits)

lemma bind_Inr_eq: "m s = (Inr x, s') \<Longrightarrow> bind m f s = f x s'"
  by (simp add: bind_def)

lemma bind_Inl_eq: "m s = (Inl e, s') \<Longrightarrow> bind m f s = (Inl e, s')"
  by (simp add: bind_def)

lemma bind_return [simp]: "bind (return x) f s = f x s"
  by (simp add: bind_def return_def)

lemma bind_raise [simp]: "bind (raise e) f s = (Inl e, s)"
  by (simp add: bind_def raise_def)

lemma bind_emit [simp]: "bind (emit ev) f s = f () (s\<lparr>trace := trace s @ [ev]\<rparr>)"
  by (simp add: bind_def emit_def)

lemma bind_modify [simp]: "bind (modify g) f s = f () (g s)"
  by (simp add: bind_def modify_def)

lemma lift_Inr [simp]: "lift (Inr x) = return x"
  by (simp add: lift_def)

lemma lift_Inl [simp]: "lift (Inl e) = raise e"
  by (simp add: lift_def)

subsection \<open>Substrings\<close>

lemma str_contains_sublist: "str_contains sub s \<longleftrightarrow> sublist sub s"
  by (induction s) (auto simp: sublist_Cons_right)

lemma str_contains_append: "str_contains sub a \<Longrightarrow> str_contains sub (a @ b)"
  unfolding str_contains_sublist
  by (metis sublist_order.order.trans prefixI prefix_imp_sublist)

lemma segment_contains_module:
  "str_contains (''/'' @ module @ ''/'') line \<Longrightarrow> str_contains module line"
  unfolding str_contains_sublist
  by (metis sublist_appendI sublist_order.order.trans)

subsection \<open>The selection loop\<close>

lemma select_modules_superset:
  "set (fst acc) \<subseteq> set (fst (select_modules outputs test_modules acc))"
proof (induction test_modules arbitrary: acc)
  case Nil
  then show ?case by simp
next
  case (Cons module rest)
  obtain to_build build_outs where acc: "acc = (to_build, build_outs)" by (cases acc)
  show ?case
  proof (cases "filter (\<lambda>output. str_contains module output) outputs = []")
    case True
    with acc Cons.IH [of "(to_build, build_outs)"] show ?thesis by simp
  next
    case False
    with acc Cons.IH [of "(set_add module to_build,
        build_outs @ filter (\<lambda>output. str_contains module output) outputs)"]
    show ?thesis by (auto simp: Let_def)
  qed
qed

lemma select_modules_members:
  "set (fst (select_modules outputs test_modules acc))
     = set (fst acc)
       \<union> {module \<in> set test_modules. \<exists>output \<in> set outputs. str_contains module output}"
proof (induction test_modules arbitrary: acc)
  case Nil
  then show ?case by simp
next
  case (Cons module rest)
  obtain to_build build_outs where acc: "acc = (to_build, build_outs)" by (cases acc)
  show ?case
  proof (cases "filter (\<lambda>output. str_contains module output) outputs = []")
    case True
    then have "\<not> (\<exists>output \<in> set outputs. str_contains module output)"
      by (simp add: filter_empty_conv)
    with True acc Cons.IH [of "(to_build, build_outs)"] show ?thesis by auto
  next
    case False
    then have "\<exists>output \<in> set outputs. str_contains module output"
      by (simp add: filter_empty_conv)
    with False acc Cons.IH [of "(set_add module to_build,
        build_outs @ filter (\<lambda>output. str_contains module output) outputs)"]
    show ?thesis by (auto simp: Let_def)
  qed
qed

lemma get_build_targets_impl_result:
  assumes "get_build_targets_impl s = (Inr modules, s')"
  obtains outputs test_modules where
    "modules = fst (select_modules outputs test_modules (REQUIRED_MODULES, []))"
proof -
  from assms obtain outputs s1 where
      "get_general_tests_outputs s = (Inr outputs, s1)"
    and r1: "bind (modify (\<lambda>s. s\<lparr>general_tests_outputs := Some outputs\<rparr>)) (\<lambda>_.
     bind get_test_discovery_modules (\<lambda>test_modules.
     bind (modify (\<lambda>s. s\<lparr>build_outputs := Some []\<rparr>)) (\<lambda>_.
       (case select_modules outputs test_modules (REQUIRED_MODULES, []) of
          (modules, build_outs) \<Rightarrow>
            bind (modify (\<lambda>s. s\<lparr>build_outputs := Some build_outs\<rparr>)) (\<lambda>_.
              return modules))))) s1 = (Inr modules, s')"
    unfolding get_build_targets_impl_def by (rule bind_InrE)
  from r1 obtain test_modules s2 where
      "get_test_discovery_modules (s1\<lparr>general_tests_outputs := Some outputs\<rparr>)
         = (Inr test_modules, s2)"
    and r2: "bind (modify (\<lambda>s. s\<lparr>build_outputs := Some []\<rparr>)) (\<lambda>_.
       (case select_modules outputs test_modules (REQUIRED_MODULES, []) of
          (modules, build_outs) \<Rightarrow>
            bind (modify (\<lambda>s. s\<lparr>build_outputs := Some build_outs\<rparr>)) (\<lambda>_.
              return modules))) s2 = (Inr modules, s')"
    unfolding bind_modify by (rule bind_InrE)
  from r2 have "modules = fst (select_modules outputs test_modules (REQUIRED_MODULES, []))"
    by (simp add: return_def split: prod.splits)
  then show thesis by (rule that)
qed

subsection \<open>Selection of the build targets\<close>

text \<open>
  Claim C1 does not hold of the code. \<open>get_build_targets_impl\<close> tests \<open>module in output\<close>,
  plain substring containment, where \<open>get_package_outputs_commands_impl\<close> tests
  \<open>'/' + module + '/' in file\<close>. When discovery returns \<open>m\<close> and the catalog holds lines
  of the modules \<open>m1\<close> and \<open>m2\<close> only, \<open>m\<close> is selected although no line of the catalog has
  \<open>m\<close> as a path segment.
\<close>

theorem C1_substring_of_a_segment_is_selected:
  "fst (get_build_targets_impl (example_state\<lparr>discover := (\<lambda>_ _. Inr ([''m''], []))\<rparr>))
     = Inr [''cts-tradefed'', ''vts-tradefed'', ''compatibility-host-util'', ''m'']
   \<and> filesystem example_state ''/out/general-tests_files''
       = Some (''a/m1/x'' @ [newline] @ ''a/m1/x.config'' @ [newline] @ ''a/m2/y'' @ [newline])
   \<and> \<not> list_ex (str_contains ''/m/'')
         (readlines (''a/m1/x'' @ [newline] @ ''a/m1/x.config'' @ [newline]
                      @ ''a/m2/y'' @ [newline]))"
  by code_simp

text \<open>
  Claim C2. Whenever \<open>get_build_targets_impl\<close> returns a set, for any state of the
  optimizer, any test infos, any output catalog and any discovery result, every required
  module is in the set.
\<close>

theorem C2_required_modules_are_selected:
  assumes "fst (get_build_targets_impl s) = Inr modules"
  shows "set REQUIRED_MODULES \<subseteq> set modules"
proof -
  from assms obtain s' where "get_build_targets_impl s = (Inr modules, s')"
    by (cases "get_build_targets_impl s") simp
  then obtain outputs test_modules where
    "modules = fst (select_modules outputs test_modules (REQUIRED_MODULES, []))"
    by (rule get_build_targets_impl_result)
  with select_modules_superset [of "(REQUIRED_MODULES, [])" outputs test_modules]
  show ?thesis by simp
qed

theorem C2_witness:
  "fst (get_build_targets_impl example_state)
     = Inr [''cts-tradefed'', ''vts-tradefed'', ''compatibility-host-util'', ''m1'']
   \<and> set REQUIRED_MODULES
       \<subseteq> set [''cts-tradefed'', ''vts-tradefed'', ''compatibility-host-util'', ''m1'']"
proof -
  have e: "fst (get_build_targets_impl example_state)
     = Inr [''cts-tradefed'', ''vts-tradefed'', ''compatibility-host-util'', ''m1'']"
    by code_simp
  from e C2_required_modules_are_selected [OF e] show ?thesis by simp
qed

subsection \<open>The Soong query\<close>

lemma split_char_not_Nil [simp]: "split_char c s \<noteq> []"
  by (induction s) (auto split: list.splits)

lemma split_char_no_separator: "c \<notin> set s \<Longrightarrow> split_char c s = [s]"
  by (induction s) auto

lemma split_char_separator:
  "c \<in> set s \<Longrightarrow> \<exists>a b rest. split_char c s = a # b # rest"
proof (induction s)
  case Nil
  then show ?case by simp
next
  case (Cons x xs)
  show ?case
  proof (cases "x = c")
    case True
    then show ?thesis by (cases "split_char c xs") auto
  next
    case False
    with Cons obtain a b rest where "split_char c xs = a # b # rest" by auto
    with False show ?thesis by simp
  qed
qed

lemma parse_dumpvars_None_iff:
  "parse_dumpvars lines vars = None \<longleftrightarrow> (\<exists>line \<in> set lines. CHR ''='' \<notin> set line)"
proof (induction lines arbitrary: vars)
  case Nil
  then show ?case by simp
next
  case (Cons line rest)
  show ?case
  proof (cases "CHR ''='' \<in> set line")
    case True
    then obtain a b r where "split_char (CHR ''='') line = a # b # r"
      using split_char_separator by blast
    with True Cons.IH show ?thesis by simp
  next
    case False
    then show ?thesis by (simp add: split_char_no_separator)
  qed
qed

lemma query_soong_vars_result:
  assumes "subprocess_run s (dumpvars_args src_top soong_vars) (environ s) = Inr process_result"
  shows "fst (query_soong_vars src_top soong_vars s) =
     (if returncode process_result \<noteq> 0 then
        Inl (Error RuntimeError ''Soong dumpvars failed! See log for stderr.'')
      else if stdout process_result = [] then
        Inl (Error TypeError ''can only concatenate str (not list) to str'')
      else
        (case parse_dumpvars (split_char newline (strip (stdout process_result))) Map.empty of
           None \<Rightarrow> Inl (Error RuntimeError
                         (''Error parsing soong dumpvars output! See output here: ''
                           @ stdout process_result))
         | Some vars \<Rightarrow> Inr vars))"
  using assms
  by (simp add: query_soong_vars_def Let_def bind_def emit_def raise_def return_def
           split: option.splits)

text \<open>
  The statement of claim C7 fails for the unparsable output: the code strips the output
  before it splits it into lines, so an output whose first line is empty, a line without
  \<open>=\<close>, is parsed and the dictionary is returned.
\<close>

theorem C7_counterexample:
  "readlines output_after_empty_line = [[newline], ''PRODUCT_OUT='' @ quote @ ''/out'' @ quote @ [newline]]
   \<and> CHR ''='' \<notin> set (hd (readlines output_after_empty_line))
   \<and> (\<exists>vars. fst (query_soong_vars ''/top'' [''PRODUCT_OUT'']
                    (with_soong_result 0 output_after_empty_line)) = Inr vars
             \<and> vars ''PRODUCT_OUT'' = Some ''/out'')"
proof -
  have "case fst (query_soong_vars ''/top'' [''PRODUCT_OUT'']
                    (with_soong_result 0 output_after_empty_line)) of
          Inl e \<Rightarrow> False
        | Inr vars \<Rightarrow> vars ''PRODUCT_OUT'' = Some ''/out''"
    by code_simp
  then have "\<exists>vars. fst (query_soong_vars ''/top'' [''PRODUCT_OUT'']
                    (with_soong_result 0 output_after_empty_line)) = Inr vars
             \<and> vars ''PRODUCT_OUT'' = Some ''/out''"
    by (simp split: sum.splits)
  moreover have "readlines output_after_empty_line
      = [[newline], ''PRODUCT_OUT='' @ quote @ ''/out'' @ quote @ [newline]]"
    by code_simp
  moreover have "CHR ''='' \<notin> set (hd (readlines output_after_empty_line))"
    by code_simp
  ultimately show ?thesis by blast
qed

text \<open>
  Claim C7, as amended. When the dumpvars process has run: a non-zero exit code raises the
  \<open>RuntimeError\<close> of the message \<open>Soong dumpvars failed! See log for stderr.\<close>; exit code 0
  with empty output raises a \<open>TypeError\<close>; exit code 0 with a non-empty output of which a
  line, among the lines of the stripped output, has no \<open>=\<close> raises the \<open>RuntimeError\<close> of
  the message \<open>Error parsing soong dumpvars output! See output here: \<close> followed by the
  output. A dictionary is returned in the remaining case only: exit code 0 and a non-empty
  output of which every line of the stripped output has a \<open>=\<close>. The first message contains
  \<open>dumpvars failed\<close> and not \<open>parsing\<close>, the second contains \<open>parsing\<close>.
\<close>

theorem C7_soong_query_failures:
  assumes "subprocess_run s (dumpvars_args src_top soong_vars) (environ s) = Inr process_result"
  shows "(returncode process_result \<noteq> 0 \<longrightarrow>
            fst (query_soong_vars src_top soong_vars s)
              = Inl (Error RuntimeError ''Soong dumpvars failed! See log for stderr.''))
         \<and> (returncode process_result = 0 \<and> stdout process_result = [] \<longrightarrow>
            (\<exists>msg. fst (query_soong_vars src_top soong_vars s) = Inl (Error TypeError msg)))
         \<and> (returncode process_result = 0 \<and> stdout process_result \<noteq> []
              \<and> (\<exists>line \<in> set (split_char newline (strip (stdout process_result))).
                    CHR ''='' \<notin> set line) \<longrightarrow>
            fst (query_soong_vars src_top soong_vars s)
              = Inl (Error RuntimeError
                       (''Error parsing soong dumpvars output! See output here: ''
                          @ stdout process_result)))
         \<and> ((\<exists>vars. fst (query_soong_vars src_top soong_vars s) = Inr vars) \<longleftrightarrow>
              returncode process_result = 0 \<and> stdout process_result \<noteq> []
              \<and> (\<forall>line \<in> set (split_char newline (strip (stdout process_result))).
                    CHR ''='' \<in> set line))
         \<and> str_contains ''dumpvars failed'' ''Soong dumpvars failed! See log for stderr.''
         \<and> \<not> str_contains ''parsing'' ''Soong dumpvars failed! See log for stderr.''
         \<and> str_contains ''parsing''
              (''Error parsing soong dumpvars output! See output here: '' @ stdout process_result)"
proof (intro conjI impI)
  assume "returncode process_result \<noteq> 0"
  then show "fst (query_soong_vars src_top soong_vars s)
               = Inl (Error RuntimeError ''Soong dumpvars failed! See log for stderr.'')"
    by (simp add: query_soong_vars_result [OF assms])
next
  assume "returncode process_result = 0 \<and> stdout process_result = []"
  then show "\<exists>msg. fst (query_soong_vars src_top soong_vars s) = Inl (Error TypeError msg)"
    by (simp add: query_soong_vars_result [OF assms])
next
  assume a: "returncode process_result = 0 \<and> stdout process_result \<noteq> []
              \<and> (\<exists>line \<in> set (split_char newline (strip (stdout process_result))).
                    CHR ''='' \<notin> set line)"
  then have "parse_dumpvars (split_char newline (strip (stdout process_result))) Map.empty = None"
    by (simp add: parse_dumpvars_None_iff)
  with a show "fst (query_soong_vars src_top soong_vars s)
      = Inl (Error RuntimeError (''Error parsing soong dumpvars output! See output here: ''
                                  @ stdout process_result))"
    by (simp add: query_soong_vars_result [OF assms])
next
  have "parse_dumpvars (split_char newline (strip (stdout process_result))) Map.empty \<noteq> None
        \<longleftrightarrow> (\<forall>line \<in> set (split_char newline (strip (stdout process_result))).
               CHR ''='' \<in> set line)"
    by (simp add: parse_dumpvars_None_iff)
  then show "(\<exists>vars. fst (query_soong_vars src_top soong_vars s) = Inr vars) \<longleftrightarrow>
              returncode process_result = 0 \<and> stdout process_result \<noteq> []
              \<and> (\<forall>line \<in> set (split_char newline (strip (stdout process_result))).
                    CHR ''='' \<in> set line)"
    by (auto simp add: query_soong_vars_result [OF assms] split: option.splits)
next
  show "str_contains ''dumpvars failed'' ''Soong dumpvars failed! See log for stderr.''"
    by code_simp
next
  show "\<not> str_contains ''parsing'' ''Soong dumpvars failed! See log for stderr.''"
    by code_simp
next
  have "str_contains ''parsing'' ''Error parsing soong dumpvars output! See output here: ''"
    by code_simp
  then show "str_contains ''parsing''
               (''Error parsing soong dumpvars output! See output here: '' @ stdout process_result)"
    by (rule str_contains_append)
qed


theorem C7_witness:
  "fst (query_soong_vars ''/top'' [''PRODUCT_OUT''] (with_soong_result (- 1) []))
     = Inl (Error RuntimeError ''Soong dumpvars failed! See log for stderr.'')
   \<and> (\<exists>msg. fst (query_soong_vars ''/top'' [''PRODUCT_OUT''] (with_soong_result 0 []))
                = Inl (Error TypeError msg))
   \<and> fst (query_soong_vars ''/top'' [''PRODUCT_OUT''] (with_soong_result 0 ''This output is bad''))
     = Inl (Error RuntimeError
              ''Error parsing soong dumpvars output! See output here: This output is bad'')
   \<and> (\<exists>vars. fst (query_soong_vars ''/top'' [''PRODUCT_OUT'']
                    (with_soong_result 0 (''PRODUCT_OUT='' @ quote @ ''/out'' @ quote @ [newline])))
                = Inr vars)
   \<and> str_contains ''parsing''
        ''Error parsing soong dumpvars output! See output here: This output is bad''"
proof -
  have r: "subprocess_run (with_soong_result code out)
             (dumpvars_args ''/top'' [''PRODUCT_OUT'']) (environ (with_soong_result code out))
           = Inr \<lparr>returncode = code, stdout = out, stderr = ''soong_ui failed''\<rparr>" for code out
    by (simp add: with_soong_result_def)
  have l: "\<exists>line \<in> set (split_char newline (strip ''This output is bad'')). CHR ''='' \<notin> set line"
    by code_simp
  have m: "\<forall>line \<in> set (split_char newline
                          (strip (''PRODUCT_OUT='' @ quote @ ''/out'' @ quote @ [newline]))).
             CHR ''='' \<in> set line"
    by code_simp
  have q: "''PRODUCT_OUT='' @ quote @ ''/out'' @ quote @ [newline] \<noteq> []"
    by simp
  from C7_soong_query_failures [OF r [of "- 1" "[]"]]
       C7_soong_query_failures [OF r [of 0 "[]"]]
       C7_soong_query_failures [OF r [of 0 "''This output is bad''"]]
       C7_soong_query_failures
         [OF r [of 0 "''PRODUCT_OUT='' @ quote @ ''/out'' @ quote @ [newline]"]] l m q
  show ?thesis by simp
qed

subsection \<open>The target is never assigned and the trace only grows\<close>

lemma advances_target: "advances m \<Longrightarrow> target (snd (m s)) = target s"
  by (simp add: advances_def)

lemma advances_trace: "advances m \<Longrightarrow> prefix (trace s) (trace (snd (m s)))"
  by (simp add: advances_def)

lemma advances_return: "advances (return x)"
  by (simp add: advances_def return_def)

lemma advances_raise: "advances (raise e)"
  by (simp add: advances_def raise_def)

lemma advances_emit: "advances (emit ev)"
  by (simp add: advances_def emit_def)

lemma advances_lift: "advances (lift r)"
  by (cases r) (simp_all add: advances_return advances_raise)

lemma advances_call: "advances (call r)"
  by (cases r) (simp_all add: call_def advances_return advances_raise)

lemma advances_modify:
  "(\<And>s. target (g s) = target s \<and> trace (g s) = trace s) \<Longrightarrow> advances (modify g)"
  by (simp add: advances_def modify_def)

lemma advances_bind:
  assumes "advances m" and "\<And>x. advances (f x)"
  shows "advances (bind m f)"
  unfolding advances_def
proof (intro allI)
  fix s
  show "target (snd (bind m f s)) = target s \<and> prefix (trace s) (trace (snd (bind m f s)))"
  proof (cases "m s")
    case (Pair r s')
    from Pair advances_target [OF assms(1), of s] have t: "target s' = target s" by simp
    from Pair advances_trace [OF assms(1), of s] have p: "prefix (trace s) (trace s')" by simp
    show ?thesis
    proof (cases r)
      case (Inl e)
      with Pair t p show ?thesis by (simp add: bind_def)
    next
      case (Inr x)
      with Pair have b: "bind m f s = f x s'" by (simp add: bind_def)
      from advances_target [OF assms(2), of x s'] t b
      have "target (snd (bind m f s)) = target s" by simp
      moreover from advances_trace [OF assms(2), of s' x] p b
      have "prefix (trace s) (trace (snd (bind m f s)))"
        by (metis prefix_order.order_trans)
      ultimately show ?thesis by simp
    qed
  qed
qed

lemma advances_state: "(\<And>s'. advances (m s')) \<Longrightarrow> advances (\<lambda>s. m s s)"
  by (simp add: advances_def)

lemma advances_if: "advances a \<Longrightarrow> advances b \<Longrightarrow> advances (if c then a else b)"
  by simp

lemma advances_Path_of: "advances (Path_of x)"
  by (cases x) (simp_all add: Path_of_def advances_return advances_raise)

lemma advances_attribute: "advances (attribute name v)"
  by (cases v) (simp_all add: attribute_def advances_return advances_raise)

lemma advances_get_src_top: "advances get_src_top"
  by (simp add: advances_def get_src_top_def return_def)

lemma advances_read_text: "advances (read_text p)"
  unfolding read_text_def
  by (rule advances_bind [OF advances_emit])
     (simp add: advances_def raise_def return_def split: option.splits)

lemma advances_read_lines: "advances (read_lines p)"
  unfolding read_lines_def
  by (rule advances_bind [OF advances_read_text]) (rule advances_return)

lemma advances_query_soong_vars: "advances (query_soong_vars src_top soong_vars)"
proof -
  have 1: "advances (\<lambda>s. lift (subprocess_run s args (environ s)) s)" for args
    by (rule advances_state) (rule advances_lift)
  have 2: "advances
     (if returncode pr \<noteq> 0 then
        bind (emit (Log_error ''soong dumpvars command failed! stderr:'')) (\<lambda>_.
        bind (emit (Log_error (stderr pr))) (\<lambda>_.
          raise (Error RuntimeError ''Soong dumpvars failed! See log for stderr.'')))
      else if stdout pr = [] then
        raise (Error TypeError ''can only concatenate str (not list) to str'')
      else
        (case parse_dumpvars (split_char newline (strip (stdout pr))) Map.empty of
           None \<Rightarrow>
             raise (Error RuntimeError
                      (''Error parsing soong dumpvars output! See output here: '' @ stdout pr))
         | Some vars \<Rightarrow> return vars))" for pr :: process_result
    by (intro advances_if advances_bind advances_emit advances_raise)
       (simp add: advances_raise advances_return split: option.splits)
  show ?thesis
    unfolding query_soong_vars_def Let_def
    by (intro advances_bind advances_emit 1 2)
qed

lemma advances_get_general_tests_outputs: "advances get_general_tests_outputs"
  unfolding get_general_tests_outputs_def
  by (intro advances_bind advances_get_src_top advances_query_soong_vars advances_Path_of
        advances_read_lines advances_return advances_modify)
     simp_all

lemma advances_ChangeInfo_init: "advances (ChangeInfo_init p)"
proof (cases p)
  case None
  then show ?thesis by (simp add: ChangeInfo_init_def advances_raise)
next
  case (Some q)
  have "advances (\<lambda>s. case json_load s content of
              Inl e \<Rightarrow>
                if exn_class_of e = JSONDecodeError then
                  bind (emit (Log_error (''Failed to load CHANGE_INFO: '' @ q))) (\<lambda>_. raise e) s
                else raise e s
            | Inr contents \<Rightarrow> return contents s)" for content
    by (simp add: advances_def bind_def emit_def raise_def return_def split: sum.splits)
  with Some show ?thesis
    unfolding ChangeInfo_init_def by (simp add: advances_bind advances_read_text)
qed

lemma advances_discover_test_modules: "advances (discover_test_modules change_paths ti)"
  by (simp add: advances_def discover_test_modules_def Let_def bind_def emit_def lift_def
        raise_def return_def split: option.splits sum.splits prod.splits)

lemma advances_discover_all: "advances (discover_all change_paths tis test_modules)"
proof (induction tis arbitrary: test_modules)
  case Nil
  then show ?case by (simp add: advances_def)
next
  case (Cons ti rest)
  show ?case
    unfolding advances_def
  proof (intro allI)
    fix s
    obtain r s' where d: "discover_test_modules change_paths ti s = (r, s')"
      by (cases "discover_test_modules change_paths ti s")
    from d advances_target [OF advances_discover_test_modules, of change_paths ti s]
    have t: "target s' = target s" by simp
    from d advances_trace [OF advances_discover_test_modules, of s change_paths ti]
    have p: "prefix (trace s) (trace s')" by simp
    show "target (snd (discover_all change_paths (ti # rest) test_modules s)) = target s
          \<and> prefix (trace s) (trace (snd (discover_all change_paths (ti # rest) test_modules s)))"
    proof (cases r)
      case (Inl e)
      with d t p show ?thesis by simp
    next
      case (Inr modules)
      with d have e: "discover_all change_paths (ti # rest) test_modules s
          = discover_all change_paths rest (fold set_add modules test_modules) s'"
        by simp
      from advances_target [OF Cons.IH, of "fold set_add modules test_modules" s'] t e
      have "target (snd (discover_all change_paths (ti # rest) test_modules s)) = target s"
        by simp
      moreover from advances_trace [OF Cons.IH, of s' "fold set_add modules test_modules"] p e
      have "prefix (trace s) (trace (snd (discover_all change_paths (ti # rest) test_modules s)))"
        by (metis prefix_order.order_trans)
      ultimately show ?thesis by simp
    qed
  qed
qed

lemma advances_get_test_discovery_modules: "advances get_test_discovery_modules"
  unfolding get_test_discovery_modules_def
  by (intro advances_bind advances_lift
        advances_state [of "\<lambda>s. ChangeInfo_init (environ s ''CHANGE_INFO'')"]
        advances_state [of "\<lambda>s. discover_all change_paths (test_infos s) []" for change_paths]
        advances_ChangeInfo_init advances_discover_all)

lemma advances_get_build_targets_impl: "advances get_build_targets_impl"
  unfolding get_build_targets_impl_def
  by (intro advances_bind advances_get_general_tests_outputs
        advances_get_test_discovery_modules advances_modify)
     (simp_all add: advances_bind advances_modify advances_return split: prod.splits)

lemma advances_report_info_metrics: "advances (report_info_metrics artifact_name)"
  unfolding report_info_metrics_def
  by (intro advances_bind advances_emit advances_get_build_targets_impl
        advances_state [of "\<lambda>s. call (metrics_instance s)"]
        advances_state [of "\<lambda>s. emit (Report_optimized_target (target s))"]
        advances_state [of "\<lambda>s. call (report_optimized_target s (target s))"]
        advances_state [of "\<lambda>s. emit (Add_target_artifact (target s) artifact_name 0 targets)" for targets]
        advances_state [of "\<lambda>s. call (add_target_artifact s (target s) artifact_name 0 targets)" for targets]
        advances_call)

lemma advances_report_info_metrics_silently:
  "advances (report_info_metrics_silently artifact_name)"
  unfolding advances_def
proof (intro allI)
  fix s
  obtain r s' where d: "report_info_metrics artifact_name s = (r, s')"
    by (cases "report_info_metrics artifact_name s")
  from d advances_target [OF advances_report_info_metrics, of artifact_name s]
  have t: "target s' = target s" by simp
  from d advances_trace [OF advances_report_info_metrics, of s artifact_name]
  have p: "prefix (trace s) (trace s')" by simp
  from d t p
  show "target (snd (report_info_metrics_silently artifact_name s)) = target s
        \<and> prefix (trace s) (trace (snd (report_info_metrics_silently artifact_name s)))"
    by (cases r) (auto simp: report_info_metrics_silently_def emit_def prefix_def)
qed

lemma report_info_metrics_silently_returns:
  "fst (report_info_metrics_silently artifact_name s) = Inr ()"
  by (simp add: report_info_metrics_silently_def emit_def split: prod.splits sum.splits)

subsection \<open>The metrics agent is never assigned\<close>

lemma keeps_agent_report: "keeps_agent m \<Longrightarrow> report_optimized_target (snd (m s)) = report_optimized_target s"
  by (simp add: keeps_agent_def)

lemma keeps_agent_artifact: "keeps_agent m \<Longrightarrow> add_target_artifact (snd (m s)) = add_target_artifact s"
  by (simp add: keeps_agent_def)

lemma keeps_agent_return: "keeps_agent (return x)"
  by (simp add: keeps_agent_def return_def)

lemma keeps_agent_raise: "keeps_agent (raise e)"
  by (simp add: keeps_agent_def raise_def)

lemma keeps_agent_emit: "keeps_agent (emit ev)"
  by (simp add: keeps_agent_def emit_def)

lemma keeps_agent_lift: "keeps_agent (lift r)"
  by (cases r) (simp_all add: keeps_agent_return keeps_agent_raise)

lemma keeps_agent_modify:
  "(\<And>s. report_optimized_target (g s) = report_optimized_target s
        \<and> add_target_artifact (g s) = add_target_artifact s) \<Longrightarrow> keeps_agent (modify g)"
  by (simp add: keeps_agent_def modify_def)

lemma keeps_agent_bind:
  assumes "keeps_agent m" and "\<And>x. keeps_agent (f x)"
  shows "keeps_agent (bind m f)"
  unfolding keeps_agent_def
proof (intro allI)
  fix s
  show "report_optimized_target (snd (bind m f s)) = report_optimized_target s
        \<and> add_target_artifact (snd (bind m f s)) = add_target_artifact s"
  proof (cases "m s")
    case (Pair r s')
    from Pair keeps_agent_report [OF assms(1), of s]
    have t: "report_optimized_target s' = report_optimized_target s" by simp
    from Pair keeps_agent_artifact [OF assms(1), of s]
    have p: "add_target_artifact s' = add_target_artifact s" by simp
    show ?thesis
    proof (cases r)
      case (Inl e)
      with Pair t p show ?thesis by (simp add: bind_def)
    next
      case (Inr x)
      with Pair have b: "bind m f s = f x s'" by (simp add: bind_def)
      from keeps_agent_report [OF assms(2), of x s'] keeps_agent_artifact [OF assms(2), of x s'] t p b
      show ?thesis by simp
    qed
  qed
qed

lemma keeps_agent_state: "(\<And>s'. keeps_agent (m s')) \<Longrightarrow> keeps_agent (\<lambda>s. m s s)"
  by (simp add: keeps_agent_def)

lemma keeps_agent_if: "keeps_agent a \<Longrightarrow> keeps_agent b \<Longrightarrow> keeps_agent (if c then a else b)"
  by simp

lemma keeps_agent_Path_of: "keeps_agent (Path_of x)"
  by (cases x) (simp_all add: Path_of_def keeps_agent_return keeps_agent_raise)

lemma keeps_agent_get_src_top: "keeps_agent get_src_top"
  by (simp add: keeps_agent_def get_src_top_def return_def)

lemma keeps_agent_read_text: "keeps_agent (read_text p)"
  unfolding read_text_def
  by (rule keeps_agent_bind [OF keeps_agent_emit])
     (simp add: keeps_agent_def raise_def return_def split: option.splits)

lemma keeps_agent_read_lines: "keeps_agent (read_lines p)"
  unfolding read_lines_def
  by (rule keeps_agent_bind [OF keeps_agent_read_text]) (rule keeps_agent_return)

lemma keeps_agent_query_soong_vars: "keeps_agent (query_soong_vars src_top soong_vars)"
proof -
  have 1: "keeps_agent (\<lambda>s. lift (subprocess_run s args (environ s)) s)" for args
    by (rule keeps_agent_state) (rule keeps_agent_lift)
  have 2: "keeps_agent
     (if returncode pr \<noteq> 0 then
        bind (emit (Log_error ''soong dumpvars command failed! stderr:'')) (\<lambda>_.
        bind (emit (Log_error (stderr pr))) (\<lambda>_.
          raise (Error RuntimeError ''Soong dumpvars failed! See log for stderr.'')))
      else if stdout pr = [] then
        raise (Error TypeError ''can only concatenate str (not list) to str'')
      else
        (case parse_dumpvars (split_char newline (strip (stdout pr))) Map.empty of
           None \<Rightarrow>
             raise (Error RuntimeError
                      (''Error parsing soong dumpvars output! See output here: '' @ stdout pr))
         | Some vars \<Rightarrow> return vars))" for pr :: process_result
    by (intro keeps_agent_if keeps_agent_bind keeps_agent_emit keeps_agent_raise)
       (simp add: keeps_agent_raise keeps_agent_return split: option.splits)
  show ?thesis
    unfolding query_soong_vars_def Let_def
    by (intro keeps_agent_bind keeps_agent_emit 1 2)
qed

lemma keeps_agent_get_general_tests_outputs: "keeps_agent get_general_tests_outputs"
  unfolding get_general_tests_outputs_def
  by (intro keeps_agent_bind keeps_agent_get_src_top keeps_agent_query_soong_vars keeps_agent_Path_of
        keeps_agent_read_lines keeps_agent_return keeps_agent_modify)
     simp_all

lemma keeps_agent_ChangeInfo_init: "keeps_agent (ChangeInfo_init p)"
proof (cases p)
  case None
  then show ?thesis by (simp add: ChangeInfo_init_def keeps_agent_raise)
next
  case (Some q)
  have "keeps_agent (\<lambda>s. case json_load s content of
              Inl e \<Rightarrow>
                if exn_class_of e = JSONDecodeError then
                  bind (emit (Log_error (''Failed to load CHANGE_INFO: '' @ q))) (\<lambda>_. raise e) s
                else raise e s
            | Inr contents \<Rightarrow> return contents s)" for content
    by (simp add: keeps_agent_def bind_def emit_def raise_def return_def split: sum.splits)
  with Some show ?thesis
    unfolding ChangeInfo_init_def by (simp add: keeps_agent_bind keeps_agent_read_text)
qed

lemma keeps_agent_discover_test_modules: "keeps_agent (discover_test_modules change_paths ti)"
  by (simp add: keeps_agent_def discover_test_modules_def Let_def bind_def emit_def lift_def
        raise_def return_def split: option.splits sum.splits prod.splits)

lemma keeps_agent_discover_all: "keeps_agent (discover_all change_paths tis test_modules)"
proof (induction tis arbitrary: test_modules)
  case Nil
  then show ?case by (simp add: keeps_agent_def)
next
  case (Cons ti rest)
  show ?case
    unfolding keeps_agent_def
  proof (intro allI)
    fix s
    obtain r s' where d: "discover_test_modules change_paths ti s = (r, s')"
      by (cases "discover_test_modules change_paths ti s")
    from d keeps_agent_report [OF keeps_agent_discover_test_modules, of change_paths ti s]
    have t: "report_optimized_target s' = report_optimized_target s" by simp
    from d keeps_agent_artifact [OF keeps_agent_discover_test_modules, of change_paths ti s]
    have p: "add_target_artifact s' = add_target_artifact s" by simp
    show "report_optimized_target (snd (discover_all change_paths (ti # rest) test_modules s))
            = report_optimized_target s
          \<and> add_target_artifact (snd (discover_all change_paths (ti # rest) test_modules s))
            = add_target_artifact s"
    proof (cases r)
      case (Inl e)
      with d t p show ?thesis by simp
    next
      case (Inr modules)
      with d have e: "discover_all change_paths (ti # rest) test_modules s
          = discover_all change_paths rest (fold set_add modules test_modules) s'"
        by simp
      from keeps_agent_report [OF Cons.IH, of "fold set_add modules test_modules" s']
           keeps_agent_artifact [OF Cons.IH, of "fold set_add modules test_modules" s'] t p e
      show ?thesis by simp
    qed
  qed
qed

lemma keeps_agent_get_test_discovery_modules: "keeps_agent get_test_discovery_modules"
  unfolding get_test_discovery_modules_def
  by (intro keeps_agent_bind keeps_agent_lift
        keeps_agent_state [of "\<lambda>s. ChangeInfo_init (environ s ''CHANGE_INFO'')"]
        keeps_agent_state [of "\<lambda>s. discover_all change_paths (test_infos s) []" for change_paths]
        keeps_agent_ChangeInfo_init keeps_agent_discover_all)

lemma keeps_agent_get_build_targets_impl: "keeps_agent get_build_targets_impl"
  unfolding get_build_targets_impl_def
  by (intro keeps_agent_bind keeps_agent_get_general_tests_outputs
        keeps_agent_get_test_discovery_modules keeps_agent_modify)
     (simp_all add: keeps_agent_bind keeps_agent_modify keeps_agent_return split: prod.splits)

subsection \<open>Pass-through\<close>

lemma get_build_targets_pass_through:
  assumes "get_enabled_flag \<notin> enabled_build_features s"
  shows "fst (get_build_targets s) = Inr [target s]"
proof (cases "target s = ''general-tests''")
  case False
  with assms show ?thesis
    by (simp add: get_build_targets_def return_def)
next
  case True
  obtain r s1 where s1: "report_info_metrics_silently ''general-tests.zip'' s = (r, s1)"
    by (cases "report_info_metrics_silently ''general-tests.zip'' s")
  with report_info_metrics_silently_returns [of "''general-tests.zip''" s]
  have r: "r = Inr ()" by simp
  from advances_target [OF advances_report_info_metrics_silently, of "''general-tests.zip''" s] s1
  have "target s1 = target s" by simp
  with assms True s1 r show ?thesis
    by (simp add: get_build_targets_def bind_def return_def modify_def)
qed

text \<open>
  Claim C3. When \<open>general_tests_optimized\<close>, the flag of the optimizer, is not among the
  enabled build features, \<open>get_build_targets\<close> returns the set of the target alone and
  \<open>get_package_outputs_commands\<close> returns the empty list, whatever the catalog files, the
  discovery and the other collaborators do. The two methods of \<open>NullOptimizer\<close> return the
  same from every state and leave the state, and so the list of collaborator calls, as it
  was.
\<close>

theorem C3_pass_through_without_flag:
  assumes "get_enabled_flag \<notin> enabled_build_features s"
  shows "fst (get_build_targets s) = Inr [target s]
         \<and> fst (get_package_outputs_commands s) = Inr []
         \<and> NullOptimizer_get_build_targets null_target w = (Inr [null_target], w)
         \<and> NullOptimizer_get_package_outputs_commands null_target w = (Inr [], w)"
  using assms get_build_targets_pass_through [OF assms]
  by (simp add: get_package_outputs_commands_def NullOptimizer_get_build_targets_def
        NullOptimizer_get_package_outputs_commands_def return_def)

theorem C3_witness:
  "get_enabled_flag \<notin> enabled_build_features pass_through_state
   \<and> fst (get_build_targets pass_through_state) = Inr [''general-tests'']
   \<and> fst (get_package_outputs_commands pass_through_state) = Inr []
   \<and> NullOptimizer_get_build_targets ''general-tests'' pass_through_state
       = (Inr [''general-tests''], pass_through_state)
   \<and> NullOptimizer_get_package_outputs_commands ''general-tests'' pass_through_state
       = (Inr [], pass_through_state)"
proof -
  have f: "get_enabled_flag \<notin> enabled_build_features pass_through_state"
    by (simp add: pass_through_state_def get_enabled_flag_def)
  have t: "target pass_through_state = ''general-tests''"
    by (simp add: pass_through_state_def example_state_def)
  from C3_pass_through_without_flag [OF f, of "''general-tests''" pass_through_state] f t
  show ?thesis by simp
qed

subsection \<open>Metrics on the pass-through path\<close>

lemma report_info_metrics_attempts:
  "prefix (trace s @ [Metrics_instance]) (trace (snd (report_info_metrics artifact_name s)))"
proof -
  have "advances
     (bind (\<lambda>s. call (metrics_instance s) s) (\<lambda>_.
      bind get_build_targets_impl (\<lambda>targets.
      bind (\<lambda>s. emit (Report_optimized_target (target s)) s) (\<lambda>_.
      bind (\<lambda>s. call (report_optimized_target s (target s)) s) (\<lambda>_.
      bind (\<lambda>s. emit (Add_target_artifact (target s) artifact_name 0 targets) s) (\<lambda>_.
        (\<lambda>s. call (add_target_artifact s (target s) artifact_name 0 targets) s)))))))"
    by (intro advances_bind advances_emit advances_get_build_targets_impl
        advances_state [of "\<lambda>s. call (metrics_instance s)"]
        advances_state [of "\<lambda>s. emit (Report_optimized_target (target s))"]
        advances_state [of "\<lambda>s. call (report_optimized_target s (target s))"]
        advances_state [of "\<lambda>s. emit (Add_target_artifact (target s) artifact_name 0 targets)" for targets]
        advances_state [of "\<lambda>s. call (add_target_artifact s (target s) artifact_name 0 targets)" for targets]
        advances_call)
  from advances_trace [OF this, of "s\<lparr>trace := trace s @ [Metrics_instance]\<rparr>"]
  show ?thesis by (simp add: report_info_metrics_def)
qed

lemma silent_metrics_state:
  assumes "get_enabled_flag \<notin> enabled_build_features s" and "target s = ''general-tests''"
  shows "snd (get_build_targets s) =
     (case metrics_instance s of
        Some e \<Rightarrow>
          s\<lparr>trace := trace s @ [Metrics_instance,
                Log_error_exception ''error while silently reporting metrics: '' e],
            modules_to_build := Some [''general-tests'']\<rparr>
      | None \<Rightarrow>
     (case get_build_targets_impl (s\<lparr>trace := trace s @ [Metrics_instance]\<rparr>) of
        (Inl e, s1) \<Rightarrow>
          s1\<lparr>trace := trace s1
                @ [Log_error_exception ''error while silently reporting metrics: '' e],
             modules_to_build := Some [''general-tests'']\<rparr>
      | (Inr targets, s1) \<Rightarrow>
     (case report_optimized_target s ''general-tests'' of
        Some e \<Rightarrow>
          s1\<lparr>trace := trace s1
                @ [Report_optimized_target ''general-tests'',
                   Log_error_exception ''error while silently reporting metrics: '' e],
             modules_to_build := Some [''general-tests'']\<rparr>
      | None \<Rightarrow>
     (case add_target_artifact s ''general-tests'' ''general-tests.zip'' 0 targets of
        Some e \<Rightarrow>
          s1\<lparr>trace := trace s1
                @ [Report_optimized_target ''general-tests'',
                   Add_target_artifact ''general-tests'' ''general-tests.zip'' 0 targets,
                   Log_error_exception ''error while silently reporting metrics: '' e],
             modules_to_build := Some [''general-tests'']\<rparr>
      | None \<Rightarrow>
          s1\<lparr>trace := trace s1
                @ [Report_optimized_target ''general-tests'',
                   Add_target_artifact ''general-tests'' ''general-tests.zip'' 0 targets],
             modules_to_build := Some [''general-tests'']\<rparr>))))"
proof -
  let ?s0 = "s\<lparr>trace := trace s @ [Metrics_instance]\<rparr>"
  obtain r s1 where i: "get_build_targets_impl ?s0 = (r, s1)"
    by (cases "get_build_targets_impl ?s0")
  from i advances_target [OF advances_get_build_targets_impl, of ?s0] assms(2)
  have t: "target s1 = ''general-tests''" by simp
  from i keeps_agent_report [OF keeps_agent_get_build_targets_impl, of ?s0]
  have a: "report_optimized_target s1 = report_optimized_target s" by simp
  from i keeps_agent_artifact [OF keeps_agent_get_build_targets_impl, of ?s0]
  have b: "add_target_artifact s1 = add_target_artifact s" by simp
  from assms i t a b show ?thesis
    by (cases r)
       (simp_all add: get_build_targets_def report_info_metrics_silently_def
          report_info_metrics_def bind_def emit_def call_def raise_def return_def modify_def
          split: option.splits)
qed


text \<open>
  Claim C9. On the pass-through path of the target \<open>general-tests\<close>, \<open>get_build_targets\<close>
  returns the set of the target alone, never an exception, and the state it leaves is
  that of the notification: \<open>MetricsAgent.instance()\<close> is asked for; when it returns,
  \<open>get_build_targets_impl\<close> runs; when that returns the targets,
  \<open>report_optimized_target\<close> is called with the target; when that returns,
  \<open>add_target_artifact\<close> is called with the target, \<open>general-tests.zip\<close>, 0 and the
  targets. The first exception of these four steps ends the notification and is logged
  as the last event; nothing else is done with it.
\<close>

theorem C9_metrics_failure_is_logged_and_swallowed:
  assumes "get_enabled_flag \<notin> enabled_build_features s" and "target s = ''general-tests''"
  shows "fst (get_build_targets s) = Inr [''general-tests'']
         \<and> prefix (trace s @ [Metrics_instance]) (trace (snd (get_build_targets s)))
         \<and> snd (get_build_targets s) =
            (case metrics_instance s of
               Some e \<Rightarrow>
                 s\<lparr>trace := trace s @ [Metrics_instance,
                       Log_error_exception ''error while silently reporting metrics: '' e],
                   modules_to_build := Some [''general-tests'']\<rparr>
             | None \<Rightarrow>
            (case get_build_targets_impl (s\<lparr>trace := trace s @ [Metrics_instance]\<rparr>) of
               (Inl e, s1) \<Rightarrow>
                 s1\<lparr>trace := trace s1
                       @ [Log_error_exception ''error while silently reporting metrics: '' e],
                    modules_to_build := Some [''general-tests'']\<rparr>
             | (Inr targets, s1) \<Rightarrow>
            (case report_optimized_target s ''general-tests'' of
               Some e \<Rightarrow>
                 s1\<lparr>trace := trace s1
                       @ [Report_optimized_target ''general-tests'',
                          Log_error_exception ''error while silently reporting metrics: '' e],
                    modules_to_build := Some [''general-tests'']\<rparr>
             | None \<Rightarrow>
            (case add_target_artifact s ''general-tests'' ''general-tests.zip'' 0 targets of
               Some e \<Rightarrow>
                 s1\<lparr>trace := trace s1
                       @ [Report_optimized_target ''general-tests'',
                          Add_target_artifact ''general-tests'' ''general-tests.zip'' 0 targets,
                          Log_error_exception ''error while silently reporting metrics: '' e],
                    modules_to_build := Some [''general-tests'']\<rparr>
             | None \<Rightarrow>
                 s1\<lparr>trace := trace s1
                       @ [Report_optimized_target ''general-tests'',
                          Add_target_artifact ''general-tests'' ''general-tests.zip'' 0 targets],
                    modules_to_build := Some [''general-tests'']\<rparr>))))
         \<and> (\<forall>e s'. report_info_metrics ''general-tests.zip'' s = (Inl e, s') \<longrightarrow>
               trace (snd (get_build_targets s))
                 = trace s' @ [Log_error_exception ''error while silently reporting metrics: '' e])"
proof (intro conjI allI impI)
  from get_build_targets_pass_through [OF assms(1)] assms(2)
  show "fst (get_build_targets s) = Inr [''general-tests'']" by simp
next
  obtain r s1 where m: "report_info_metrics ''general-tests.zip'' s = (r, s1)"
    by (cases "report_info_metrics ''general-tests.zip'' s")
  with report_info_metrics_attempts [of s "''general-tests.zip''"]
  have p: "prefix (trace s @ [Metrics_instance]) (trace s1)" by simp
  from assms m have "trace (snd (get_build_targets s)) = trace s1
      \<or> (\<exists>ev. trace (snd (get_build_targets s)) = trace s1 @ [ev])"
    by (cases r)
       (simp_all add: get_build_targets_def report_info_metrics_silently_def bind_def
          emit_def modify_def return_def)
  with p show "prefix (trace s @ [Metrics_instance]) (trace (snd (get_build_targets s)))"
    by (metis prefix_order.order_trans prefixI)
next
  from assms show "snd (get_build_targets s) =
            (case metrics_instance s of
               Some e \<Rightarrow>
                 s\<lparr>trace := trace s @ [Metrics_instance,
                       Log_error_exception ''error while silently reporting metrics: '' e],
                   modules_to_build := Some [''general-tests'']\<rparr>
             | None \<Rightarrow>
            (case get_build_targets_impl (s\<lparr>trace := trace s @ [Metrics_instance]\<rparr>) of
               (Inl e, s1) \<Rightarrow>
                 s1\<lparr>trace := trace s1
                       @ [Log_error_exception ''error while silently reporting metrics: '' e],
                    modules_to_build := Some [''general-tests'']\<rparr>
             | (Inr targets, s1) \<Rightarrow>
            (case report_optimized_target s ''general-tests'' of
               Some e \<Rightarrow>
                 s1\<lparr>trace := trace s1
                       @ [Report_optimized_target ''general-tests'',
                          Log_error_exception ''error while silently reporting metrics: '' e],
                    modules_to_build := Some [''general-tests'']\<rparr>
             | None \<Rightarrow>
            (case add_target_artifact s ''general-tests'' ''general-tests.zip'' 0 targets of
               Some e \<Rightarrow>
                 s1\<lparr>trace := trace s1
                       @ [Report_optimized_target ''general-tests'',
                          Add_target_artifact ''general-tests'' ''general-tests.zip'' 0 targets,
                          Log_error_exception ''error while silently reporting metrics: '' e],
                    modules_to_build := Some [''general-tests'']\<rparr>
             | None \<Rightarrow>
                 s1\<lparr>trace := trace s1
                       @ [Report_optimized_target ''general-tests'',
                          Add_target_artifact ''general-tests'' ''general-tests.zip'' 0 targets],
                    modules_to_build := Some [''general-tests'']\<rparr>))))"
    by (rule silent_metrics_state)
next
  fix e s'
  assume "report_info_metrics ''general-tests.zip'' s = (Inl e, s')"
  with assms show "trace (snd (get_build_targets s))
      = trace s' @ [Log_error_exception ''error while silently reporting metrics: '' e]"
    by (simp add: get_build_targets_def report_info_metrics_silently_def bind_def
          emit_def modify_def return_def)
qed

theorem C9_witness:
  "trace (snd (get_build_targets metrics_failing_state))
     = [Metrics_instance,
        Log_error_exception ''error while silently reporting metrics: ''
          (Error OtherException ''no metrics agent'')]
   \<and> fst (get_build_targets metrics_failing_state) = Inr [''general-tests'']
   \<and> trace (snd (get_build_targets report_failing_state))
     = Metrics_instance # selection_events
       @ [Report_optimized_target ''general-tests'',
          Log_error_exception ''error while silently reporting metrics: ''
            (Error OtherException ''target not reported'')]
   \<and> fst (get_build_targets report_failing_state) = Inr [''general-tests'']
   \<and> trace (snd (get_build_targets artifact_failing_state))
     = Metrics_instance # selection_events
       @ [Report_optimized_target ''general-tests'',
          Add_target_artifact ''general-tests'' ''general-tests.zip'' 0
            [''cts-tradefed'', ''vts-tradefed'', ''compatibility-host-util'', ''m1''],
          Log_error_exception ''error while silently reporting metrics: ''
            (Error OtherException ''artifact not added'')]
   \<and> fst (get_build_targets artifact_failing_state) = Inr [''general-tests'']
   \<and> trace (snd (get_build_targets pass_through_state))
     = Metrics_instance # selection_events
       @ [Report_optimized_target ''general-tests'',
          Add_target_artifact ''general-tests'' ''general-tests.zip'' 0
            [''cts-tradefed'', ''vts-tradefed'', ''compatibility-host-util'', ''m1'']]
   \<and> fst (get_build_targets pass_through_state) = Inr [''general-tests'']"
proof -
  have f: "get_enabled_flag \<notin> enabled_build_features metrics_failing_state"
          "get_enabled_flag \<notin> enabled_build_features report_failing_state"
          "get_enabled_flag \<notin> enabled_build_features artifact_failing_state"
          "get_enabled_flag \<notin> enabled_build_features pass_through_state"
    by (simp_all add: metrics_failing_state_def report_failing_state_def
          artifact_failing_state_def pass_through_state_def get_enabled_flag_def)
  have t: "target metrics_failing_state = ''general-tests''"
          "target report_failing_state = ''general-tests''"
          "target artifact_failing_state = ''general-tests''"
          "target pass_through_state = ''general-tests''"
    by (simp_all add: metrics_failing_state_def report_failing_state_def
          artifact_failing_state_def pass_through_state_def example_state_def)
  have n: "trace metrics_failing_state = []"
    by (simp add: metrics_failing_state_def pass_through_state_def example_state_def)
  have i: "metrics_instance metrics_failing_state = Some (Error OtherException ''no metrics agent'')"
          "metrics_instance report_failing_state = None"
          "metrics_instance artifact_failing_state = None"
          "metrics_instance pass_through_state = None"
    by (simp_all add: metrics_failing_state_def report_failing_state_def
          artifact_failing_state_def pass_through_state_def example_state_def)
  have r: "report_optimized_target report_failing_state ''general-tests''
             = Some (Error OtherException ''target not reported'')"
          "report_optimized_target artifact_failing_state ''general-tests'' = None"
          "report_optimized_target pass_through_state ''general-tests'' = None"
    by (simp_all add: report_failing_state_def artifact_failing_state_def
          pass_through_state_def example_state_def)
  have a: "add_target_artifact artifact_failing_state ''general-tests'' ''general-tests.zip'' 0 targets
             = Some (Error OtherException ''artifact not added'')"
          "add_target_artifact pass_through_state ''general-tests'' ''general-tests.zip'' 0 targets
             = None" for targets
    by (simp_all add: artifact_failing_state_def pass_through_state_def example_state_def)
  have g: "fst (get_build_targets_impl
                 (report_failing_state\<lparr>trace := trace report_failing_state @ [Metrics_instance]\<rparr>))
             = Inr [''cts-tradefed'', ''vts-tradefed'', ''compatibility-host-util'', ''m1'']"
          "fst (get_build_targets_impl
                 (artifact_failing_state\<lparr>trace := trace artifact_failing_state @ [Metrics_instance]\<rparr>))
             = Inr [''cts-tradefed'', ''vts-tradefed'', ''compatibility-host-util'', ''m1'']"
          "fst (get_build_targets_impl
                 (pass_through_state\<lparr>trace := trace pass_through_state @ [Metrics_instance]\<rparr>))
             = Inr [''cts-tradefed'', ''vts-tradefed'', ''compatibility-host-util'', ''m1'']"
    by code_simp+
  have h: "trace (snd (get_build_targets_impl
                 (report_failing_state\<lparr>trace := trace report_failing_state @ [Metrics_instance]\<rparr>)))
             = Metrics_instance # selection_events"
          "trace (snd (get_build_targets_impl
                 (artifact_failing_state\<lparr>trace := trace artifact_failing_state @ [Metrics_instance]\<rparr>)))
             = Metrics_instance # selection_events"
          "trace (snd (get_build_targets_impl
                 (pass_through_state\<lparr>trace := trace pass_through_state @ [Metrics_instance]\<rparr>)))
             = Metrics_instance # selection_events"
    by code_simp+
  from C9_metrics_failure_is_logged_and_swallowed [OF f(1) t(1)]
       C9_metrics_failure_is_logged_and_swallowed [OF f(2) t(2)]
       C9_metrics_failure_is_logged_and_swallowed [OF f(3) t(3)]
       C9_metrics_failure_is_logged_and_swallowed [OF f(4) t(4)]
       n i r a g h
  show ?thesis by (simp add: prod.case_eq_if)
qed

subsection \<open>The archives of the test configs\<close>

lemma Path_not_empty [simp]: "Path p \<noteq> []"
  by (simp add: Path_def Let_def split: prod.splits)

lemma pdiv_not_empty [simp]: "pdiv p k \<noteq> []"
  by (simp add: pdiv_def)

lemma zip_options_for_list_file:
  "relative_root \<noteq> [] \<Longrightarrow>
   generate_zip_options_for_items pfx relative_root (Some [list_file]) None None
     = Inr ((if pfx \<noteq> [] then [''-P'', pfx] else []) @ [''-C'', relative_root, ''-l'', list_file])"
  by (simp add: generate_zip_options_for_items_def falsy_def flag_items_def)

lemma zip_options_for_file:
  "relative_root \<noteq> [] \<Longrightarrow>
   generate_zip_options_for_items pfx relative_root None (Some [file]) None
     = Inr ((if pfx \<noteq> [] then [''-P'', pfx] else []) @ [''-C'', relative_root, ''-f'', file])"
  by (simp add: generate_zip_options_for_items_def falsy_def flag_items_def)

lemma write_config_lists_open_w_error [simp]:
  "open_w_error (write_config_lists own_list list_file side root config_files s) = open_w_error s"
  by (induction config_files arbitrary: s) (simp_all add: fwrite_def)

lemma config_zips_commands_unfolded:
  assumes "host_out \<noteq> []" and "product_out \<noteq> []"
  shows "get_zip_test_configs_zips_commands src_top dist_dir host_out product_out
           host_config_files target_config_files s =
     (case open_w_error s (pdiv host_out ''host_general-tests_list'') of
        Some e \<Rightarrow>
          (Inl e, s\<lparr>trace := trace s @ [Open_write (pdiv host_out ''host_general-tests_list'')]\<rparr>)
      | None \<Rightarrow>
     (case open_w_error s (pdiv product_out ''target_general-tests_list'') of
        Some e \<Rightarrow>
          (Inl e,
           s\<lparr>trace := trace s @ [Open_write (pdiv host_out ''host_general-tests_list''),
                                 Open_write (pdiv product_out ''target_general-tests_list'')],
             filesystem := (filesystem s)(pdiv host_out ''host_general-tests_list'' \<mapsto> [])\<rparr>)
      | None \<Rightarrow>
     (case open_w_error s (pdiv host_out ''general-tests_list'') of
        Some e \<Rightarrow>
          (Inl e,
           s\<lparr>trace := trace s @ [Open_write (pdiv host_out ''host_general-tests_list''),
                                 Open_write (pdiv product_out ''target_general-tests_list''),
                                 Open_write (pdiv host_out ''general-tests_list'')],
             filesystem := (filesystem s)
               (pdiv host_out ''host_general-tests_list'' \<mapsto> [],
                pdiv product_out ''target_general-tests_list'' \<mapsto> [])\<rparr>)
      | None \<Rightarrow>
          (Inr [base_zip_command src_top dist_dir ''general-tests_configs.zip''
                  @ [''-P'', ''host'', ''-C'', host_out,
                     ''-l'', pdiv host_out ''host_general-tests_list'',
                     ''-P'', ''target'', ''-C'', product_out,
                     ''-l'', pdiv product_out ''target_general-tests_list''],
                base_zip_command src_top dist_dir ''general-tests_list.zip''
                  @ [''-C'', host_out, ''-f'', pdiv host_out ''general-tests_list'']],
           write_config_lists (pdiv product_out ''target_general-tests_list'')
             (pdiv host_out ''general-tests_list'') ''target/'' product_out target_config_files
             (write_config_lists (pdiv host_out ''host_general-tests_list'')
                (pdiv host_out ''general-tests_list'') ''host/'' host_out host_config_files
                (s\<lparr>trace := trace s @ [Open_write (pdiv host_out ''host_general-tests_list''),
                                      Open_write (pdiv product_out ''target_general-tests_list''),
                                      Open_write (pdiv host_out ''general-tests_list'')],
                   filesystem := (filesystem s)
                     (pdiv host_out ''host_general-tests_list'' \<mapsto> [],
                      pdiv product_out ''target_general-tests_list'' \<mapsto> [],
                      pdiv host_out ''general-tests_list'' \<mapsto> [])\<rparr>))))))"
  using assms
  by (simp add: get_zip_test_configs_zips_commands_def Let_def open_w_def bind_def emit_def
        raise_def return_def modify_def zip_options_for_list_file zip_options_for_file
        split: option.splits)

lemma Path_of_Inr: "Path_of x s = (Inr p, s') \<Longrightarrow> s' = s \<and> (\<exists>q. x = Some q \<and> p = Path q)"
  by (cases x) (simp_all add: Path_of_def raise_def return_def)

lemma config_zips_commands_Inr:
  assumes "get_zip_test_configs_zips_commands src_top dist_dir host_out product_out
             host_config_files target_config_files s = (Inr commands, s')"
    and "host_out \<noteq> []" and "product_out \<noteq> []"
  shows "commands =
     [base_zip_command src_top dist_dir ''general-tests_configs.zip''
        @ [''-P'', ''host'', ''-C'', host_out,
           ''-l'', pdiv host_out ''host_general-tests_list'',
           ''-P'', ''target'', ''-C'', product_out,
           ''-l'', pdiv product_out ''target_general-tests_list''],
      base_zip_command src_top dist_dir ''general-tests_list.zip''
        @ [''-C'', host_out, ''-f'', pdiv host_out ''general-tests_list'']]"
  using assms(1) unfolding config_zips_commands_unfolded [OF assms(2,3)]
  by (simp split: option.splits)

text \<open>
  The statement of claim C10 fails for the second archive: the one segment of
  \<open>general-tests_list.zip\<close> is built with \<open>files\<close>, not \<open>list_files\<close>, which is \<open>None\<close>
  there, so its command has \<open>-f\<close> and no \<open>-l\<close>.
\<close>

theorem C10_counterexample:
  "fst (get_zip_test_configs_zips_commands ''/top'' ''/dist'' ''/host'' ''/out'' [] []
         example_state)
     = Inr [[''/top/prebuilts/build-tools/linux-x86/bin/soong_zip'', ''-d'', ''-o'',
             ''/dist/general-tests_configs.zip'',
             ''-P'', ''host'', ''-C'', ''/host'', ''-l'', ''/host/host_general-tests_list'',
             ''-P'', ''target'', ''-C'', ''/out'', ''-l'', ''/out/target_general-tests_list''],
            [''/top/prebuilts/build-tools/linux-x86/bin/soong_zip'', ''-d'', ''-o'',
             ''/dist/general-tests_list.zip'',
             ''-C'', ''/host'', ''-f'', ''/host/general-tests_list'']]
   \<and> generate_zip_options_for_items [] ''/host'' None (Some [''/host/general-tests_list'']) None
       = Inr [''-C'', ''/host'', ''-f'', ''/host/general-tests_list'']
   \<and> falsy None
   \<and> ''-l'' \<notin> set [''/top/prebuilts/build-tools/linux-x86/bin/soong_zip'', ''-d'', ''-o'',
                     ''/dist/general-tests_list.zip'',
                     ''-C'', ''/host'', ''-f'', ''/host/general-tests_list'']"
  by code_simp

text \<open>
  Claim C10, as amended. For every list of host and of target config files, empty or
  not, \<open>_get_zip_test_configs_zips_commands\<close> raises only what opening one of its three
  list files for writing raises, and otherwise returns both archive commands: the configs
  archive with the host and the target segment, each built with a list-files argument of
  one path, and the list archive with one segment built with a files argument of one path,
  the combined list file. The three calls of the zip-segment builder return a segment, so
  its \<open>RuntimeError\<close> is not reached. With no config files the three list files are
  written empty.
\<close>

theorem C10_config_archives_are_always_built:
  "fst (get_zip_test_configs_zips_commands src_top dist_dir (Path h) (Path p)
          host_config_files target_config_files s) =
     (case open_w_error s (pdiv (Path h) ''host_general-tests_list'') of
        Some e \<Rightarrow> Inl e
      | None \<Rightarrow>
     (case open_w_error s (pdiv (Path p) ''target_general-tests_list'') of
        Some e \<Rightarrow> Inl e
      | None \<Rightarrow>
     (case open_w_error s (pdiv (Path h) ''general-tests_list'') of
        Some e \<Rightarrow> Inl e
      | None \<Rightarrow>
          Inr [base_zip_command src_top dist_dir ''general-tests_configs.zip''
                 @ [''-P'', ''host'', ''-C'', Path h,
                    ''-l'', pdiv (Path h) ''host_general-tests_list'',
                    ''-P'', ''target'', ''-C'', Path p,
                    ''-l'', pdiv (Path p) ''target_general-tests_list''],
               base_zip_command src_top dist_dir ''general-tests_list.zip''
                 @ [''-C'', Path h, ''-f'', pdiv (Path h) ''general-tests_list'']])))
   \<and> generate_zip_options_for_items ''host'' (Path h)
         (Some [pdiv (Path h) ''host_general-tests_list'']) None None
       = Inr [''-P'', ''host'', ''-C'', Path h, ''-l'', pdiv (Path h) ''host_general-tests_list'']
   \<and> generate_zip_options_for_items ''target'' (Path p)
         (Some [pdiv (Path p) ''target_general-tests_list'']) None None
       = Inr [''-P'', ''target'', ''-C'', Path p,
              ''-l'', pdiv (Path p) ''target_general-tests_list'']
   \<and> generate_zip_options_for_items [] (Path h)
         None (Some [pdiv (Path h) ''general-tests_list'']) None
       = Inr [''-C'', Path h, ''-f'', pdiv (Path h) ''general-tests_list'']
   \<and> (open_w_error s (pdiv (Path h) ''host_general-tests_list'') = None
        \<and> open_w_error s (pdiv (Path p) ''target_general-tests_list'') = None
        \<and> open_w_error s (pdiv (Path h) ''general-tests_list'') = None
      \<longrightarrow> (let s' = snd (get_zip_test_configs_zips_commands src_top dist_dir (Path h) (Path p)
                             [] [] s)
           in filesystem s' (pdiv (Path h) ''host_general-tests_list'') = Some []
              \<and> filesystem s' (pdiv (Path p) ''target_general-tests_list'') = Some []
              \<and> filesystem s' (pdiv (Path h) ''general-tests_list'') = Some []))"
proof (intro conjI impI)
  show "fst (get_zip_test_configs_zips_commands src_top dist_dir (Path h) (Path p)
          host_config_files target_config_files s) =
     (case open_w_error s (pdiv (Path h) ''host_general-tests_list'') of
        Some e \<Rightarrow> Inl e
      | None \<Rightarrow>
     (case open_w_error s (pdiv (Path p) ''target_general-tests_list'') of
        Some e \<Rightarrow> Inl e
      | None \<Rightarrow>
     (case open_w_error s (pdiv (Path h) ''general-tests_list'') of
        Some e \<Rightarrow> Inl e
      | None \<Rightarrow>
          Inr [base_zip_command src_top dist_dir ''general-tests_configs.zip''
                 @ [''-P'', ''host'', ''-C'', Path h,
                    ''-l'', pdiv (Path h) ''host_general-tests_list'',
                    ''-P'', ''target'', ''-C'', Path p,
                    ''-l'', pdiv (Path p) ''target_general-tests_list''],
               base_zip_command src_top dist_dir ''general-tests_list.zip''
                 @ [''-C'', Path h, ''-f'', pdiv (Path h) ''general-tests_list'']])))"
    by (simp add: config_zips_commands_unfolded split: option.splits)
next
  show "generate_zip_options_for_items ''host'' (Path h)
         (Some [pdiv (Path h) ''host_general-tests_list'']) None None
       = Inr [''-P'', ''host'', ''-C'', Path h, ''-l'', pdiv (Path h) ''host_general-tests_list'']"
    by (simp add: zip_options_for_list_file)
next
  show "generate_zip_options_for_items ''target'' (Path p)
         (Some [pdiv (Path p) ''target_general-tests_list'']) None None
       = Inr [''-P'', ''target'', ''-C'', Path p,
              ''-l'', pdiv (Path p) ''target_general-tests_list'']"
    by (simp add: zip_options_for_list_file)
next
  show "generate_zip_options_for_items [] (Path h)
         None (Some [pdiv (Path h) ''general-tests_list'']) None
       = Inr [''-C'', Path h, ''-f'', pdiv (Path h) ''general-tests_list'']"
    by (simp add: zip_options_for_file)
next
  assume "open_w_error s (pdiv (Path h) ''host_general-tests_list'') = None
        \<and> open_w_error s (pdiv (Path p) ''target_general-tests_list'') = None
        \<and> open_w_error s (pdiv (Path h) ''general-tests_list'') = None"
  then show "let s' = snd (get_zip_test_configs_zips_commands src_top dist_dir (Path h) (Path p)
                             [] [] s)
           in filesystem s' (pdiv (Path h) ''host_general-tests_list'') = Some []
              \<and> filesystem s' (pdiv (Path p) ''target_general-tests_list'') = Some []
              \<and> filesystem s' (pdiv (Path h) ''general-tests_list'') = Some []"
    by (simp add: config_zips_commands_unfolded Let_def)
qed

theorem C10_witness:
  "fst (get_zip_test_configs_zips_commands ''/top'' ''/dist'' (Path ''/host'') (Path ''/out'')
          [] [] example_state)
     = Inr [[''/top/prebuilts/build-tools/linux-x86/bin/soong_zip'', ''-d'', ''-o'',
             ''/dist/general-tests_configs.zip'',
             ''-P'', ''host'', ''-C'', ''/host'', ''-l'', ''/host/host_general-tests_list'',
             ''-P'', ''target'', ''-C'', ''/out'', ''-l'', ''/out/target_general-tests_list''],
            [''/top/prebuilts/build-tools/linux-x86/bin/soong_zip'', ''-d'', ''-o'',
             ''/dist/general-tests_list.zip'',
             ''-C'', ''/host'', ''-f'', ''/host/general-tests_list'']]
   \<and> filesystem (snd (get_zip_test_configs_zips_commands ''/top'' ''/dist'' (Path ''/host'')
                        (Path ''/out'') [] [] example_state))
        ''/host/host_general-tests_list'' = Some []
   \<and> filesystem (snd (get_zip_test_configs_zips_commands ''/top'' ''/dist'' (Path ''/host'')
                        (Path ''/out'') [] [] example_state))
        ''/out/target_general-tests_list'' = Some []
   \<and> filesystem (snd (get_zip_test_configs_zips_commands ''/top'' ''/dist'' (Path ''/host'')
                        (Path ''/out'') [] [] example_state))
        ''/host/general-tests_list'' = Some []"
proof -
  have o: "open_w_error example_state q = None" for q
    by (simp add: example_state_def)
  have p: "Path ''/host'' = ''/host''" "Path ''/out'' = ''/out''"
    "pdiv ''/host'' ''host_general-tests_list'' = ''/host/host_general-tests_list''"
    "pdiv ''/out'' ''target_general-tests_list'' = ''/out/target_general-tests_list''"
    "pdiv ''/host'' ''general-tests_list'' = ''/host/general-tests_list''"
    "base_zip_command ''/top'' ''/dist'' ''general-tests_configs.zip''
       = [''/top/prebuilts/build-tools/linux-x86/bin/soong_zip'', ''-d'', ''-o'',
          ''/dist/general-tests_configs.zip'']"
    "base_zip_command ''/top'' ''/dist'' ''general-tests_list.zip''
       = [''/top/prebuilts/build-tools/linux-x86/bin/soong_zip'', ''-d'', ''-o'',
          ''/dist/general-tests_list.zip'']"
    by code_simp+
  from C10_config_archives_are_always_built
         [of "''/top''" "''/dist''" "''/host''" "''/out''" "[]" "[]" example_state]
  show ?thesis
    by (simp add: o p Let_def)
qed

subsection \<open>The order of the archive commands\<close>

lemma get_package_outputs_commands_impl_result:
  assumes "get_package_outputs_commands_impl s = (Inr commands, s')"
  shows "\<exists>src_top dist configs_options list_options general_tests_options.
           fst (get_src_top s) = Inr src_top
           \<and> environ s ''DIST_DIR'' = Some dist
           \<and> commands =
               [base_zip_command src_top (Path dist) ''general-tests_configs.zip''
                  @ configs_options,
                base_zip_command src_top (Path dist) ''general-tests_list.zip''
                  @ list_options,
                base_zip_command src_top (Path dist) ''general-tests.zip''
                  @ general_tests_options @ [''-sha256'']]"
  using assms unfolding get_package_outputs_commands_impl_def Let_def
proof (elim bind_InrE)
  fix src_top dist_dir tmp_dir modules host_lines target_lines soong_vars product_out
    soong_host_out host_out config_zip_commands host_segment target_segment tools_segment
    and s1 s2 s14 s15 s16 s17 s18 s21 :: state
  assume top: "get_src_top s = (Inr src_top, s1)"
    and dist: "Path_of (environ s1 ''DIST_DIR'') s1 = (Inr dist_dir, s2)"
    and po: "Path_of (soong_vars ''PRODUCT_OUT'') s14 = (Inr product_out, s15)"
    and ho: "Path_of (soong_vars ''HOST_OUT'') s16 = (Inr host_out, s17)"
    and cfg: "get_zip_test_configs_zips_commands src_top dist_dir host_out product_out
          (config_files_of (outputs_of_modules src_top modules host_lines))
          (config_files_of (outputs_of_modules src_top modules target_lines)) s17 =
         (Inr config_zip_commands, s18)"
    and ret: "return (config_zip_commands
         @ [base_zip_command src_top dist_dir ''general-tests.zip''
              @ host_segment @ target_segment @ tools_segment @ [''-sha256'']]) s21 =
         (Inr commands, s')"
  from top have s1: "s1 = s" by (simp add: get_src_top_def return_def)
  from Path_of_Inr [OF dist] s1 obtain d where
    d: "environ s ''DIST_DIR'' = Some d" "dist_dir = Path d"
    by auto
  from Path_of_Inr [OF po] have "product_out \<noteq> []" by auto
  moreover from Path_of_Inr [OF ho] have "host_out \<noteq> []" by auto
  ultimately have "config_zip_commands =
     [base_zip_command src_top dist_dir ''general-tests_configs.zip''
        @ [''-P'', ''host'', ''-C'', host_out,
           ''-l'', pdiv host_out ''host_general-tests_list'',
           ''-P'', ''target'', ''-C'', product_out,
           ''-l'', pdiv product_out ''target_general-tests_list''],
      base_zip_command src_top dist_dir ''general-tests_list.zip''
        @ [''-C'', host_out, ''-f'', pdiv host_out ''general-tests_list'']]"
    using config_zips_commands_Inr [OF cfg] by simp
  with ret top d show ?thesis
    by (auto simp: return_def)
qed

text \<open>
  Claim C8. Whenever \<open>get_package_outputs_commands_impl\<close> returns, it returns three
  commands: the one writing \<open>general-tests_configs.zip\<close>, then the one writing
  \<open>general-tests_list.zip\<close>, then, as the last element, the one writing
  \<open>general-tests.zip\<close>, each starting with the base zip command for its archive in the
  dist directory.
\<close>

theorem C8_config_archives_precede_general_tests_archive:
  assumes "fst (get_package_outputs_commands_impl s) = Inr commands"
  shows "\<exists>src_top dist configs_options list_options general_tests_options.
           fst (get_src_top s) = Inr src_top
           \<and> environ s ''DIST_DIR'' = Some dist
           \<and> commands =
               [base_zip_command src_top (Path dist) ''general-tests_configs.zip''
                  @ configs_options,
                base_zip_command src_top (Path dist) ''general-tests_list.zip''
                  @ list_options,
                base_zip_command src_top (Path dist) ''general-tests.zip''
                  @ general_tests_options]
           \<and> last commands
               = base_zip_command src_top (Path dist) ''general-tests.zip''
                   @ general_tests_options"
proof -
  from assms obtain s' where "get_package_outputs_commands_impl s = (Inr commands, s')"
    by (cases "get_package_outputs_commands_impl s") simp
  from get_package_outputs_commands_impl_result [OF this]
  obtain src_top dist configs_options list_options options where
    "fst (get_src_top s) = Inr src_top" "environ s ''DIST_DIR'' = Some dist"
    "commands =
       [base_zip_command src_top (Path dist) ''general-tests_configs.zip'' @ configs_options,
        base_zip_command src_top (Path dist) ''general-tests_list.zip'' @ list_options,
        base_zip_command src_top (Path dist) ''general-tests.zip'' @ options @ [''-sha256'']]"
    by blast
  then show ?thesis
    by (intro exI [of _ src_top] exI [of _ dist] exI [of _ configs_options]
          exI [of _ list_options] exI [of _ "options @ [''-sha256'']"]) simp
qed

theorem C8_witness:
  "fst (get_package_outputs_commands_impl selected_state)
     = Inr [[''/top/prebuilts/build-tools/linux-x86/bin/soong_zip'', ''-d'', ''-o'',
             ''/dist/general-tests_configs.zip'',
             ''-P'', ''host'', ''-C'', ''/host'', ''-l'', ''/host/host_general-tests_list'',
             ''-P'', ''target'', ''-C'', ''/out'', ''-l'', ''/out/target_general-tests_list''],
            [''/top/prebuilts/build-tools/linux-x86/bin/soong_zip'', ''-d'', ''-o'',
             ''/dist/general-tests_list.zip'',
             ''-C'', ''/host'', ''-f'', ''/host/general-tests_list''],
            [''/top/prebuilts/build-tools/linux-x86/bin/soong_zip'', ''-d'', ''-o'',
             ''/dist/general-tests.zip'',
             ''-P'', ''host'', ''-C'', ''/host'', ''-l'', ''/tmp/host.list'',
             ''-P'', ''host/tools'', ''-C'', ''/soong/framework'',
             ''-f'', ''/soong/framework/cts-tradefed.jar'',
             ''-f'', ''/soong/framework/compatibility-host-util.jar'',
             ''-f'', ''/soong/framework/vts-tradefed.jar'',
             ''-sha256'']]
   \<and> (\<exists>src_top dist configs_options list_options general_tests_options.
           fst (get_src_top selected_state) = Inr src_top
           \<and> environ selected_state ''DIST_DIR'' = Some dist
           \<and> [[''/top/prebuilts/build-tools/linux-x86/bin/soong_zip'', ''-d'', ''-o'',
             ''/dist/general-tests_configs.zip'',
             ''-P'', ''host'', ''-C'', ''/host'', ''-l'', ''/host/host_general-tests_list'',
             ''-P'', ''target'', ''-C'', ''/out'', ''-l'', ''/out/target_general-tests_list''],
            [''/top/prebuilts/build-tools/linux-x86/bin/soong_zip'', ''-d'', ''-o'',
             ''/dist/general-tests_list.zip'',
             ''-C'', ''/host'', ''-f'', ''/host/general-tests_list''],
            [''/top/prebuilts/build-tools/linux-x86/bin/soong_zip'', ''-d'', ''-o'',
             ''/dist/general-tests.zip'',
             ''-P'', ''host'', ''-C'', ''/host'', ''-l'', ''/tmp/host.list'',
             ''-P'', ''host/tools'', ''-C'', ''/soong/framework'',
             ''-f'', ''/soong/framework/cts-tradefed.jar'',
             ''-f'', ''/soong/framework/compatibility-host-util.jar'',
             ''-f'', ''/soong/framework/vts-tradefed.jar'',
             ''-sha256'']] =
               [base_zip_command src_top (Path dist) ''general-tests_configs.zip''
                  @ configs_options,
                base_zip_command src_top (Path dist) ''general-tests_list.zip''
                  @ list_options,
                base_zip_command src_top (Path dist) ''general-tests.zip''
                  @ general_tests_options])"
proof -
  have e: "fst (get_package_outputs_commands_impl selected_state)
     = Inr [[''/top/prebuilts/build-tools/linux-x86/bin/soong_zip'', ''-d'', ''-o'',
             ''/dist/general-tests_configs.zip'',
             ''-P'', ''host'', ''-C'', ''/host'', ''-l'', ''/host/host_general-tests_list'',
             ''-P'', ''target'', ''-C'', ''/out'', ''-l'', ''/out/target_general-tests_list''],
            [''/top/prebuilts/build-tools/linux-x86/bin/soong_zip'', ''-d'', ''-o'',
             ''/dist/general-tests_list.zip'',
             ''-C'', ''/host'', ''-f'', ''/host/general-tests_list''],
            [''/top/prebuilts/build-tools/linux-x86/bin/soong_zip'', ''-d'', ''-o'',
             ''/dist/general-tests.zip'',
             ''-P'', ''host'', ''-C'', ''/host'', ''-l'', ''/tmp/host.list'',
             ''-P'', ''host/tools'', ''-C'', ''/soong/framework'',
             ''-f'', ''/soong/framework/cts-tradefed.jar'',
             ''-f'', ''/soong/framework/compatibility-host-util.jar'',
             ''-f'', ''/soong/framework/vts-tradefed.jar'',
             ''-sha256'']]"
    by code_simp
  from e C8_config_archives_precede_general_tests_archive [OF e] show ?thesis
    by blast
qed

end
